theory Spec2Isabelle
  imports Complex_Main
begin

section \<open>Python values used by the trading bot\<close>

text \<open>
  The exceptions the modelled code can raise. \<open>ValueError\<close> is what
  \<^verbatim>\<open>Series.rolling\<close> raises for a negative window, \<open>IndexError\<close> what
  \<^verbatim>\<open>.iloc\<close> raises out of range, \<open>KeyError\<close> what a missing column raises,
  \<open>FetchError\<close> stands for whatever the exchange raises, and
  \<open>OutOfBoundsDatetime\<close> for a failing \<^verbatim>\<open>pd.to_datetime\<close>.
\<close>

datatype error = ValueError | IndexError | KeyError | FetchError | OutOfBoundsDatetime

text \<open>
  A float64 cell is a real number or NaN (\<open>None\<close>). Rounding and the infinities are
  not modelled; every price and every random draw used in an example below is exactly
  representable in binary, and the results computed from them are too. Arithmetic
  propagates NaN and every comparison with NaN is false, as in numpy.
\<close>

type_synonym pyfloat = "real option"

definition fadd :: "pyfloat \<Rightarrow> pyfloat \<Rightarrow> pyfloat" where
  "fadd a b = (case a of None \<Rightarrow> None | Some x \<Rightarrow> (case b of None \<Rightarrow> None | Some y \<Rightarrow> Some (x + y)))"

definition fsub :: "pyfloat \<Rightarrow> pyfloat \<Rightarrow> pyfloat" where
  "fsub a b = (case a of None \<Rightarrow> None | Some x \<Rightarrow> (case b of None \<Rightarrow> None | Some y \<Rightarrow> Some (x - y)))"

definition fmul :: "pyfloat \<Rightarrow> pyfloat \<Rightarrow> pyfloat" where
  "fmul a b = (case a of None \<Rightarrow> None | Some x \<Rightarrow> (case b of None \<Rightarrow> None | Some y \<Rightarrow> Some (x * y)))"

definition fhalf :: "pyfloat \<Rightarrow> pyfloat" where
  "fhalf a = (case a of None \<Rightarrow> None | Some x \<Rightarrow> Some (x / 2))"

definition fabs :: "pyfloat \<Rightarrow> pyfloat" where
  "fabs a = (case a of None \<Rightarrow> None | Some x \<Rightarrow> Some \<bar>x\<bar>)"

definition flt :: "pyfloat \<Rightarrow> pyfloat \<Rightarrow> bool" where
  "flt a b = (case a of None \<Rightarrow> False | Some x \<Rightarrow> (case b of None \<Rightarrow> False | Some y \<Rightarrow> x < y))"

definition fle :: "pyfloat \<Rightarrow> pyfloat \<Rightarrow> bool" where
  "fle a b = (case a of None \<Rightarrow> False | Some x \<Rightarrow> (case b of None \<Rightarrow> False | Some y \<Rightarrow> x \<le> y))"

definition fgt :: "pyfloat \<Rightarrow> pyfloat \<Rightarrow> bool" where
  "fgt a b = flt b a"

definition fge :: "pyfloat \<Rightarrow> pyfloat \<Rightarrow> bool" where
  "fge a b = fle b a"

text \<open>The non-NaN cells of a column or of a window, in order.\<close>

fun dropna :: "pyfloat list \<Rightarrow> real list" where
  "dropna [] = []"
| "dropna (None # xs) = dropna xs"
| "dropna (Some x # xs) = x # dropna xs"

text \<open>\<^verbatim>\<open>DataFrame.max(axis=1)\<close> on one row: NaN cells are skipped, an all-NaN row gives NaN.\<close>

definition nanmax :: "pyfloat list \<Rightarrow> pyfloat" where
  "nanmax xs = (case dropna xs of [] \<Rightarrow> None | v # vs \<Rightarrow> Some (fold max vs v))"

text \<open>\<^verbatim>\<open>Series.shift(1)\<close>: NaN enters at the top, the last cell falls off.\<close>

definition shift1 :: "pyfloat list \<Rightarrow> pyfloat list" where
  "shift1 xs = (if xs = [] then [] else None # butlast xs)"

text \<open>
  \<^verbatim>\<open>.iloc[i]\<close> on a column: a negative position counts from the end, a position
  outside the column raises IndexError.
\<close>

definition iloc :: "'a list \<Rightarrow> int \<Rightarrow> error + 'a" where
  "iloc xs i =
     (if 0 \<le> i \<and> i < int (length xs) then Inr (xs ! nat i)
      else if i < 0 \<and> - int (length xs) \<le> i then Inr (xs ! nat (int (length xs) + i))
      else Inl IndexError)"

text \<open>
  \<^verbatim>\<open>Series.rolling(window)\<close>: the trailing window that ends at row \<open>i\<close>. A negative
  window raises; \<open>min_periods\<close> defaults to the window size, so a cell is NaN unless
  the window holds that many non-NaN observations (and at least one, respectively
  two for the sample standard deviation).
\<close>

definition window :: "nat \<Rightarrow> 'a list \<Rightarrow> nat \<Rightarrow> 'a list" where
  "window w xs i = drop (Suc i - w) (take (Suc i) xs)"

definition mean :: "real list \<Rightarrow> real" where
  "mean vs = sum_list vs / real (length vs)"

definition sample_std :: "real list \<Rightarrow> real" where
  "sample_std vs = sqrt (sum_list (map (\<lambda>v. (v - mean vs)\<^sup>2) vs) / real (length vs - 1))"

definition rolling_mean :: "int \<Rightarrow> pyfloat list \<Rightarrow> error + pyfloat list" where
  "rolling_mean w xs =
     (if w < 0 then Inl ValueError
      else Inr (map (\<lambda>i. let vs = dropna (window (nat w) xs i)
                          in if nat w \<le> length vs \<and> 0 < length vs then Some (mean vs) else None)
                    [0..<length xs]))"

definition rolling_std :: "int \<Rightarrow> pyfloat list \<Rightarrow> error + pyfloat list" where
  "rolling_std w xs =
     (if w < 0 then Inl ValueError
      else Inr (map (\<lambda>i. let vs = dropna (window (nat w) xs i)
                          in if nat w \<le> length vs \<and> 1 < length vs then Some (sample_std vs) else None)
                    [0..<length xs]))"

section \<open>Candle series\<close>

text \<open>
  One row of the OHLCV DataFrame built by \<^verbatim>\<open>fetch_data\<close>. The frame has the default
  RangeIndex, so \<^verbatim>\<open>data.loc[data.index[i], col] = v\<close> writes exactly row \<open>i\<close>.
\<close>

record candle =
  timestamp :: int
  open_price :: pyfloat
  high :: pyfloat
  low :: pyfloat
  close :: pyfloat
  volume :: pyfloat

section \<open>Supertrend (src/strategies/supertrend.py)\<close>

record st_frame =
  st_rows :: "candle list"
  atr_col :: "pyfloat list"
  upperband :: "pyfloat list"
  lowerband :: "pyfloat list"
  in_uptrend :: "bool list"

definition tr :: "candle list \<Rightarrow> pyfloat list" where
  "tr data =
     map (\<lambda>(c, previous_close).
            nanmax [fabs (fsub (high c) (low c)),
                    fabs (fsub (high c) previous_close),
                    fabs (fsub (low c) previous_close)])
         (zip data (shift1 (map close data)))"

definition atr :: "candle list \<Rightarrow> int \<Rightarrow> error + pyfloat list" where
  "atr data period = rolling_mean period (tr data)"

text \<open>The body of the loop of \<^verbatim>\<open>calculate\<close> for one value of \<open>current\<close>.\<close>

definition st_step :: "nat \<Rightarrow> st_frame \<Rightarrow> st_frame" where
  "st_step current f =
     (let previous = current - 1 in
      if fgt (close (st_rows f ! current)) (upperband f ! previous)
      then f\<lparr>in_uptrend := (in_uptrend f)[current := True]\<rparr>
      else if flt (close (st_rows f ! current)) (lowerband f ! previous)
      then f\<lparr>in_uptrend := (in_uptrend f)[current := False]\<rparr>
      else
        let f1 = f\<lparr>in_uptrend := (in_uptrend f)[current := in_uptrend f ! previous]\<rparr>;
            f2 = (if in_uptrend f1 ! current \<and> flt (lowerband f1 ! current) (lowerband f1 ! previous)
                  then f1\<lparr>lowerband := (lowerband f1)[current := lowerband f1 ! previous]\<rparr>
                  else f1)
        in (if \<not> in_uptrend f2 ! current \<and> fgt (upperband f2 ! current) (upperband f2 ! previous)
            then f2\<lparr>upperband := (upperband f2)[current := upperband f2 ! previous]\<rparr>
            else f2))"

definition st_calculate :: "int \<Rightarrow> real \<Rightarrow> candle list \<Rightarrow> error + st_frame" where
  "st_calculate period multiplier data =
     (case atr data period of
        Inl e \<Rightarrow> Inl e
      | Inr a \<Rightarrow>
          let hl2 = map (\<lambda>c. fhalf (fadd (high c) (low c))) data;
              ub = map (\<lambda>(h, x). fadd h (fmul (Some multiplier) x)) (zip hl2 a);
              lb = map (\<lambda>(h, x). fsub h (fmul (Some multiplier) x)) (zip hl2 a);
              f0 = \<lparr>st_rows = data, atr_col = a, upperband = ub, lowerband = lb,
                    in_uptrend = replicate (length data) True\<rparr>
          in Inr (fold st_step [1..<length data] f0))"

definition st_get_signal :: "st_frame \<Rightarrow> error + string" where
  "st_get_signal f =
     (let last_row_index = int (length (st_rows f)) - 1;
          previous_row_index = last_row_index - 1
      in if previous_row_index < 0 then Inr ''hold''
         else case iloc (in_uptrend f) previous_row_index of
                Inl e \<Rightarrow> Inl e
              | Inr p \<Rightarrow>
                 (case iloc (in_uptrend f) last_row_index of
                    Inl e \<Rightarrow> Inl e
                  | Inr l \<Rightarrow>
                      if \<not> p \<and> l then Inr ''buy''
                      else if p \<and> \<not> l then Inr ''sell''
                      else Inr ''hold''))"

section \<open>Golden Cross (src/strategies/golden_cross.py)\<close>

text \<open>
  The two moving-average columns are named after their periods in the source; with
  equal periods they are one column holding the same values, which the two fields
  below then both hold.
\<close>

record gc_frame =
  gc_rows :: "candle list"
  ma_short :: "pyfloat list"
  ma_long :: "pyfloat list"
  golden_cross :: "bool list"
  death_cross :: "bool list"

definition gc_step :: "nat \<Rightarrow> gc_frame \<Rightarrow> gc_frame" where
  "gc_step i f =
     (let f1 = (if fle (ma_short f ! (i - 1)) (ma_long f ! (i - 1)) \<and> fgt (ma_short f ! i) (ma_long f ! i)
                then f\<lparr>golden_cross := (golden_cross f)[i := True]\<rparr> else f)
      in (if fge (ma_short f1 ! (i - 1)) (ma_long f1 ! (i - 1)) \<and> flt (ma_short f1 ! i) (ma_long f1 ! i)
          then f1\<lparr>death_cross := (death_cross f1)[i := True]\<rparr> else f1))"

definition gc_calculate :: "int \<Rightarrow> int \<Rightarrow> candle list \<Rightarrow> error + gc_frame" where
  "gc_calculate short_period long_period data =
     (case rolling_mean short_period (map close data) of
        Inl e \<Rightarrow> Inl e
      | Inr ms \<Rightarrow>
         (case rolling_mean long_period (map close data) of
            Inl e \<Rightarrow> Inl e
          | Inr ml \<Rightarrow>
              let f0 = \<lparr>gc_rows = data, ma_short = ms, ma_long = ml,
                        golden_cross = replicate (length data) False,
                        death_cross = replicate (length data) False\<rparr>
              in Inr (if 2 \<le> length data then fold gc_step [1..<length data] f0 else f0)))"

definition gc_get_signal :: "gc_frame \<Rightarrow> error + string" where
  "gc_get_signal f =
     (case iloc (golden_cross f) (-1) of
        Inl e \<Rightarrow> Inl e
      | Inr g \<Rightarrow>
          if g then Inr ''buy''
          else (case iloc (death_cross f) (-1) of
                  Inl e \<Rightarrow> Inl e
                | Inr d \<Rightarrow> if d then Inr ''sell'' else Inr ''hold''))"

section \<open>Bollinger Bands (src/strategies/bollinger_bands.py)\<close>

record bb_frame =
  bb_rows :: "candle list"
  bb_middle :: "pyfloat list"
  bb_std :: "pyfloat list"
  bb_upper :: "pyfloat list"
  bb_lower :: "pyfloat list"
  above_upper :: "bool list"
  below_lower :: "bool list"
  bb_buy_signal :: "bool list"
  bb_sell_signal :: "bool list"

definition bb_step :: "nat \<Rightarrow> bb_frame \<Rightarrow> bb_frame" where
  "bb_step i f =
     (let f1 = (if below_lower f ! (i - 1) \<and> \<not> below_lower f ! i
                then f\<lparr>bb_buy_signal := (bb_buy_signal f)[i := True]\<rparr> else f)
      in (if above_upper f1 ! (i - 1) \<and> \<not> above_upper f1 ! i
          then f1\<lparr>bb_sell_signal := (bb_sell_signal f1)[i := True]\<rparr> else f1))"

definition bb_calculate :: "int \<Rightarrow> real \<Rightarrow> candle list \<Rightarrow> error + bb_frame" where
  "bb_calculate period num_std data =
     (case rolling_mean period (map close data) of
        Inl e \<Rightarrow> Inl e
      | Inr middle \<Rightarrow>
         (case rolling_std period (map close data) of
            Inl e \<Rightarrow> Inl e
          | Inr std \<Rightarrow>
              let upper = map (\<lambda>(m, s). fadd m (fmul s (Some num_std))) (zip middle std);
                  lower = map (\<lambda>(m, s). fsub m (fmul s (Some num_std))) (zip middle std);
                  f0 = \<lparr>bb_rows = data, bb_middle = middle, bb_std = std,
                        bb_upper = upper, bb_lower = lower,
                        above_upper = map (\<lambda>(c, u). fgt (close c) u) (zip data upper),
                        below_lower = map (\<lambda>(c, l). flt (close c) l) (zip data lower),
                        bb_buy_signal = replicate (length data) False,
                        bb_sell_signal = replicate (length data) False\<rparr>
              in Inr (fold bb_step [1..<length data] f0)))"

definition bb_get_signal :: "bb_frame \<Rightarrow> error + string" where
  "bb_get_signal f =
     (case iloc (bb_buy_signal f) (-1) of
        Inl e \<Rightarrow> Inl e
      | Inr b \<Rightarrow>
          if b then Inr ''buy''
          else (case iloc (bb_sell_signal f) (-1) of
                  Inl e \<Rightarrow> Inl e
                | Inr s \<Rightarrow> if s then Inr ''sell'' else Inr ''hold''))"

section \<open>Funding Rate (src/strategies/funding_rate.py)\<close>

text \<open>
  \<^verbatim>\<open>calculate\<close> fills the funding-rate column from numpy's global random generator.
  The generator's state is the stream of variates it will hand out next;
  \<^verbatim>\<open>np.random.normal(0, 0.0005, n)\<close> takes the first \<open>n\<close> of them and leaves the rest.
\<close>

type_synonym rng = "nat \<Rightarrow> real"

definition random_normal :: "nat \<Rightarrow> rng \<Rightarrow> real list \<times> rng" where
  "random_normal n g = (map g [0..<n], \<lambda>i. g (i + n))"

record fr_frame =
  fr_rows :: "candle list"
  funding_rate :: "pyfloat list"
  fr_buy_signal :: "bool list"
  fr_sell_signal :: "bool list"

definition fr_calculate :: "real \<Rightarrow> candle list \<Rightarrow> rng \<Rightarrow> fr_frame \<times> rng" where
  "fr_calculate threshold data g =
     (let (sample, g') = random_normal (length data) g;
          rates = map Some sample
      in (\<lparr>fr_rows = data, funding_rate = rates,
           fr_buy_signal = map (\<lambda>r. flt r (Some (- threshold))) rates,
           fr_sell_signal = map (\<lambda>r. fgt r (Some threshold)) rates\<rparr>, g'))"

definition fr_get_signal :: "fr_frame \<Rightarrow> error + string" where
  "fr_get_signal f =
     (case iloc (fr_buy_signal f) (-1) of
        Inl e \<Rightarrow> Inl e
      | Inr b \<Rightarrow>
          if b then Inr ''buy''
          else (case iloc (fr_sell_signal f) (-1) of
                  Inl e \<Rightarrow> Inl e
                | Inr s \<Rightarrow> if s then Inr ''sell'' else Inr ''hold''))"

section \<open>The strategy interface (src/strategies/base_strategy.py)\<close>

text \<open>
  The four subclasses of \<^verbatim>\<open>TradingStrategy\<close> with their parameters, and the
  Indicator Frame each one returns. \<open>calculate\<close> and \<open>get_signal\<close> dispatch on the
  class as the method call does. A frame of another strategy lacks the columns
  \<open>get_signal\<close> reads, which is a KeyError; Supertrend's length test comes first.
\<close>

datatype strategy =
    SupertrendStrategy int real
  | GoldenCrossStrategy int int
  | BollingerBandsStrategy int real
  | FundingRateStrategy real

datatype frame = StFrame st_frame | GcFrame gc_frame | BbFrame bb_frame | FrFrame fr_frame


fun frame_len :: "frame \<Rightarrow> nat" where
  "frame_len (StFrame f) = length (st_rows f)"
| "frame_len (GcFrame f) = length (gc_rows f)"
| "frame_len (BbFrame f) = length (bb_rows f)"
| "frame_len (FrFrame f) = length (fr_rows f)"

fun calculate :: "strategy \<Rightarrow> candle list \<Rightarrow> rng \<Rightarrow> (error + frame) \<times> rng" where
  "calculate (SupertrendStrategy period multiplier) data g =
     ((case st_calculate period multiplier data of Inl e \<Rightarrow> Inl e | Inr f \<Rightarrow> Inr (StFrame f)), g)"
| "calculate (GoldenCrossStrategy short_period long_period) data g =
     ((case gc_calculate short_period long_period data of Inl e \<Rightarrow> Inl e | Inr f \<Rightarrow> Inr (GcFrame f)), g)"
| "calculate (BollingerBandsStrategy period num_std) data g =
     ((case bb_calculate period num_std data of Inl e \<Rightarrow> Inl e | Inr f \<Rightarrow> Inr (BbFrame f)), g)"
| "calculate (FundingRateStrategy threshold) data g =
     (let (f, g') = fr_calculate threshold data g in (Inr (FrFrame f), g'))"

fun get_signal :: "strategy \<Rightarrow> frame \<Rightarrow> error + string" where
  "get_signal (SupertrendStrategy period multiplier) (StFrame f) = st_get_signal f"
| "get_signal (SupertrendStrategy period multiplier) fr =
     (if frame_len fr < 2 then Inr ''hold'' else Inl KeyError)"
| "get_signal (GoldenCrossStrategy short_period long_period) (GcFrame f) = gc_get_signal f"
| "get_signal (BollingerBandsStrategy period num_std) (BbFrame f) = bb_get_signal f"
| "get_signal (FundingRateStrategy threshold) (FrFrame f) = fr_get_signal f"
| "get_signal s fr = Inl KeyError"

section \<open>The trading bot (src/core/trading_bot.py)\<close>

text \<open>
  A strategy as the bot sees it: a name, the activity flag and the two methods, each
  of which returns or raises. A Python dict keeps its keys in insertion order and
  assigning to an existing key replaces the value in place; \<open>dict_set\<close> does that on
  a list of pairs.
\<close>

record 'f strategy_obj =
  name :: string
  is_active :: bool
  calculate_method :: "candle list \<Rightarrow> error + 'f"
  get_signal_method :: "'f \<Rightarrow> error + string"


record 'f bot =
  exchange :: "string \<Rightarrow> string \<Rightarrow> int \<Rightarrow> error + candle list"
  strategies :: "'f strategy_obj list"
  data :: "candle list option"
  in_position :: bool
  current_signals :: "(string \<times> string) list"

text \<open>
  \<^verbatim>\<open>fetch_data\<close>: everything inside the \<^verbatim>\<open>try\<close> either completes or is caught.
  \<^verbatim>\<open>pd.to_datetime\<close> is a parameter: it converts one millisecond timestamp or raises.
\<close>

fun convert_timestamps :: "(int \<Rightarrow> error + int) \<Rightarrow> candle list \<Rightarrow> error + candle list" where
  "convert_timestamps to_datetime [] = Inr []"
| "convert_timestamps to_datetime (c # cs) =
     (case to_datetime (timestamp c) of
        Inl e \<Rightarrow> Inl e
      | Inr t \<Rightarrow> (case convert_timestamps to_datetime cs of
                    Inl e \<Rightarrow> Inl e
                  | Inr cs' \<Rightarrow> Inr (c\<lparr>timestamp := t\<rparr> # cs')))"

definition fetch_data ::
  "(int \<Rightarrow> error + int) \<Rightarrow> 'f bot \<Rightarrow> string \<Rightarrow> string \<Rightarrow> int \<Rightarrow> candle list option \<times> 'f bot" where
  "fetch_data to_datetime b symbol timeframe limit =
     (case exchange b symbol timeframe limit of
        Inl e \<Rightarrow> (None, b)
      | Inr bars \<Rightarrow>
         (case convert_timestamps to_datetime (butlast bars) of
            Inl e \<Rightarrow> (None, b)
          | Inr df \<Rightarrow> (Some df, b\<lparr>data := Some df\<rparr>)))"




definition get_combined_signal :: "'f bot \<Rightarrow> string \<Rightarrow> string" where
  "get_combined_signal b mode =
     (if current_signals b = [] then ''hold''
      else
        let signals = map snd (current_signals b) in
        if mode = ''majority'' then
          (let buy_count = count_list signals ''buy'';
               sell_count = count_list signals ''sell'';
               hold_count = count_list signals ''hold''
           in if buy_count > sell_count \<and> buy_count > hold_count then ''buy''
              else if sell_count > buy_count \<and> sell_count > hold_count then ''sell''
              else ''hold'')
        else if mode = ''consensus'' then
          (if list_all (\<lambda>signal. signal = ''buy'') signals then ''buy''
           else if list_all (\<lambda>signal. signal = ''sell'') signals then ''sell''
           else ''hold'')
        else if mode = ''any'' then
          (if ''buy'' \<in> set signals then ''buy''
           else if ''sell'' \<in> set signals then ''sell''
           else ''hold'')
        else ''hold'')"

text \<open>
  \<^verbatim>\<open>execute_order\<close>: the exchange call is commented out in the source, so each
  \<^verbatim>\<open>try\<close> block only logs and sets the flag; the logger does not raise.
\<close>

definition execute_order :: "'f bot \<Rightarrow> string \<Rightarrow> string \<Rightarrow> real \<Rightarrow> bool \<times> 'f bot" where
  "execute_order b symbol signal quantity =
     (if signal = ''buy'' \<and> \<not> in_position b then (True, b\<lparr>in_position := True\<rparr>)
      else if signal = ''sell'' \<and> in_position b then (True, b\<lparr>in_position := False\<rparr>)
      else (False, b))"


section \<open>Concrete inputs\<close>

text \<open>A bot with no strategies, no data and no position, of which the examples below are updates.\<close>

definition flat_bot :: "frame bot" where
  "flat_bot = \<lparr>exchange = (\<lambda>symbol timeframe limit. Inl FetchError), strategies = [],
               data = None, in_position = False, current_signals = []\<rparr>"

text \<open>A candle with all six cells present, and a conversion of millisecond timestamps to nanoseconds.\<close>

definition bar :: "int \<Rightarrow> real \<Rightarrow> real \<Rightarrow> real \<Rightarrow> real \<Rightarrow> candle" where
  "bar t o' h l c = \<lparr>timestamp = t, open_price = Some o', high = Some h, low = Some l, close = Some c, volume = Some 1\<rparr>"

definition ms_to_ns :: "int \<Rightarrow> error + int" where
  "ms_to_ns ms = (if \<bar>ms\<bar> \<le> 9223372036854 then Inr (ms * 1000000) else Inl OutOfBoundsDatetime)"

definition three_bars :: "candle list" where
  "three_bars = [bar 60000 100 101 99 100, bar 120000 100 102 100 101, bar 180000 101 103 101 102]"

text \<open>Two bars: with periods 1 and 2 the second is the first bar at which both averages are defined.\<close>

definition two_bars :: "candle list" where
  "two_bars = [bar 60000 100 100 100 100, bar 120000 100 110 100 110]"

text \<open>Series and the frames Supertrend computes for them: a breakout, a held uptrend and a held downtrend.\<close>

definition breakout_series :: "candle list" where
  "breakout_series = map (\<lambda>t. bar (60000 * int t) 100 100 100 100) [0..<10] @ [bar 600000 100 110 50 110]"

definition breakout_frame :: st_frame where
  "breakout_frame = \<lparr>st_rows = breakout_series,
      atr_col = replicate 9 None @ [Some 0, Some 6],
      upperband = replicate 9 None @ [Some 100, Some 98],
      lowerband = replicate 9 None @ [Some 100, Some 62],
      in_uptrend = replicate 11 True\<rparr>"

definition uptrend_series :: "candle list" where
  "uptrend_series = [bar 0 100 100 100 100, bar 60000 100 104 96 100]"

definition uptrend_frame :: st_frame where
  "uptrend_frame = \<lparr>st_rows = uptrend_series, atr_col = [Some 0, Some 8],
      upperband = [Some 100, Some 108], lowerband = [Some 100, Some 100],
      in_uptrend = [True, True]\<rparr>"

definition downtrend_series :: "candle list" where
  "downtrend_series = [bar 0 100 100 100 100, bar 60000 100 100 90 90, bar 120000 90 104 86 95]"

definition downtrend_frame :: st_frame where
  "downtrend_frame = \<lparr>st_rows = downtrend_series, atr_col = [Some 0, Some 10, Some 18],
      upperband = [Some 100, Some 105, Some 105], lowerband = [Some 100, Some 85, Some 77],
      in_uptrend = [True, False, False]\<rparr>"

text \<open>A one-row series, a generator state, and the Funding Rate frames of its first two draws.\<close>

definition one_bar :: "candle list" where
  "one_bar = [bar 0 100 100 100 100]"

definition example_rng :: rng where
  "example_rng = (\<lambda>i. if i = 0 then - 1 / 512 else 1 / 1024)"

definition first_draw_frame :: fr_frame where
  "first_draw_frame = \<lparr>fr_rows = one_bar, funding_rate = [Some (- 1 / 512)],
                        fr_buy_signal = [True], fr_sell_signal = [False]\<rparr>"


text \<open>Two bars whose timestamps lie beyond the year 2262, the end of the nanosecond range.\<close>

definition far_future_bars :: "candle list" where
  "far_future_bars = [bar 10000000000000 100 101 99 100, bar 10000000060000 100 102 100 101]"





section \<open>The position gate\<close>

text \<open>
  C4. From the flat state a buy opens the position and reports success, while sell and
  hold report failure and change nothing; from the long state a sell closes the
  position and reports success, while buy and hold report failure and change
  nothing. A second buy right after a successful buy from flat reports failure and
  leaves the bot long.
\<close>

theorem position_gate:
  "execute_order (b\<lparr>in_position := False\<rparr>) symbol ''buy'' quantity = (True, b\<lparr>in_position := True\<rparr>)
   \<and> execute_order (b\<lparr>in_position := False\<rparr>) symbol ''sell'' quantity = (False, b\<lparr>in_position := False\<rparr>)
   \<and> execute_order (b\<lparr>in_position := False\<rparr>) symbol ''hold'' quantity = (False, b\<lparr>in_position := False\<rparr>)
   \<and> execute_order (b\<lparr>in_position := True\<rparr>) symbol ''sell'' quantity = (True, b\<lparr>in_position := False\<rparr>)
   \<and> execute_order (b\<lparr>in_position := True\<rparr>) symbol ''buy'' quantity = (False, b\<lparr>in_position := True\<rparr>)
   \<and> execute_order (b\<lparr>in_position := True\<rparr>) symbol ''hold'' quantity = (False, b\<lparr>in_position := True\<rparr>)
   \<and> execute_order (snd (execute_order (b\<lparr>in_position := False\<rparr>) symbol ''buy'' quantity)) symbol ''buy'' quantity
       = (False, b\<lparr>in_position := True\<rparr>)"
  by (simp add: execute_order_def)

text \<open>
  C10. A signal other than buy and sell, a buy while in position and a sell while
  flat all return False and leave the bot as it was; a call that returns True has
  negated the position flag and changed nothing else; and the call returns True
  exactly when the flag differs afterwards.
\<close>

theorem execute_order_flag_iff_success:
  "(signal \<noteq> ''buy'' \<and> signal \<noteq> ''sell'' \<longrightarrow> execute_order b symbol signal quantity = (False, b))
   \<and> (in_position b \<longrightarrow> execute_order b symbol ''buy'' quantity = (False, b))
   \<and> (\<not> in_position b \<longrightarrow> execute_order b symbol ''sell'' quantity = (False, b))
   \<and> (fst (execute_order b symbol signal quantity)
        \<longrightarrow> snd (execute_order b symbol signal quantity) = b\<lparr>in_position := \<not> in_position b\<rparr>)
   \<and> (fst (execute_order b symbol signal quantity)
        \<longleftrightarrow> in_position (snd (execute_order b symbol signal quantity)) \<noteq> in_position b)"
  by (simp add: execute_order_def)

theorem execute_order_flag_iff_success_witness:
  "execute_order flat_bot ''BTC/USDT'' ''wait'' (1/1000) = (False, flat_bot)
   \<and> execute_order (flat_bot\<lparr>in_position := True\<rparr>) ''BTC/USDT'' ''buy'' (1/1000)
       = (False, flat_bot\<lparr>in_position := True\<rparr>)
   \<and> execute_order flat_bot ''BTC/USDT'' ''sell'' (1/1000) = (False, flat_bot)
   \<and> fst (execute_order flat_bot ''BTC/USDT'' ''buy'' (1/1000))
   \<and> snd (execute_order flat_bot ''BTC/USDT'' ''buy'' (1/1000)) = flat_bot\<lparr>in_position := True\<rparr>"
  using execute_order_flag_iff_success [of "''wait''" flat_bot "''BTC/USDT''" "1/1000"]
        execute_order_flag_iff_success [of "''buy''" "flat_bot\<lparr>in_position := True\<rparr>" "''BTC/USDT''" "1/1000"]
        execute_order_flag_iff_success [of "''buy''" flat_bot "''BTC/USDT''" "1/1000"]
  by (simp add: flat_bot_def execute_order_def)

section \<open>The signal aggregator\<close>

text \<open>
  C5. In majority mode the combined signal is buy when buy has strictly more votes
  than sell and than hold, sell when sell has strictly more votes than buy and than
  hold, and hold otherwise: when hold has strictly the most votes, when no signal
  has, and when there are no signals at all.
\<close>

theorem majority_mode:
  "(count_list (map snd (current_signals b)) ''buy'' > count_list (map snd (current_signals b)) ''sell''
      \<and> count_list (map snd (current_signals b)) ''buy'' > count_list (map snd (current_signals b)) ''hold''
      \<longrightarrow> get_combined_signal b ''majority'' = ''buy'')
   \<and> (count_list (map snd (current_signals b)) ''sell'' > count_list (map snd (current_signals b)) ''buy''
      \<and> count_list (map snd (current_signals b)) ''sell'' > count_list (map snd (current_signals b)) ''hold''
      \<longrightarrow> get_combined_signal b ''majority'' = ''sell'')
   \<and> (count_list (map snd (current_signals b)) ''hold'' > count_list (map snd (current_signals b)) ''buy''
      \<and> count_list (map snd (current_signals b)) ''hold'' > count_list (map snd (current_signals b)) ''sell''
      \<longrightarrow> get_combined_signal b ''majority'' = ''hold'')
   \<and> (\<not> (count_list (map snd (current_signals b)) ''buy'' > count_list (map snd (current_signals b)) ''sell''
          \<and> count_list (map snd (current_signals b)) ''buy'' > count_list (map snd (current_signals b)) ''hold'')
      \<and> \<not> (count_list (map snd (current_signals b)) ''sell'' > count_list (map snd (current_signals b)) ''buy''
          \<and> count_list (map snd (current_signals b)) ''sell'' > count_list (map snd (current_signals b)) ''hold'')
      \<longrightarrow> get_combined_signal b ''majority'' = ''hold'')
   \<and> (current_signals b = [] \<longrightarrow> get_combined_signal b ''majority'' = ''hold'')"
  by (auto simp add: get_combined_signal_def Let_def)

theorem majority_mode_witness:
  "get_combined_signal
     (flat_bot\<lparr>current_signals := [(''Supertrend'', ''buy''), (''Golden Cross'', ''buy''), (''Bollinger Bands'', ''sell'')]\<rparr>)
     ''majority'' = ''buy''
   \<and> get_combined_signal
     (flat_bot\<lparr>current_signals := [(''Supertrend'', ''sell''), (''Golden Cross'', ''buy''), (''Bollinger Bands'', ''sell'')]\<rparr>)
     ''majority'' = ''sell''
   \<and> get_combined_signal
     (flat_bot\<lparr>current_signals := [(''Supertrend'', ''hold''), (''Golden Cross'', ''hold''), (''Bollinger Bands'', ''sell'')]\<rparr>)
     ''majority'' = ''hold''
   \<and> get_combined_signal
     (flat_bot\<lparr>current_signals := [(''Supertrend'', ''buy''), (''Golden Cross'', ''sell''), (''Bollinger Bands'', ''hold'')]\<rparr>)
     ''majority'' = ''hold''
   \<and> get_combined_signal (flat_bot\<lparr>current_signals := []\<rparr>) ''majority'' = ''hold''"
  using majority_mode [of "flat_bot\<lparr>current_signals := [(''Supertrend'', ''buy''), (''Golden Cross'', ''buy''), (''Bollinger Bands'', ''sell'')]\<rparr>"]
        majority_mode [of "flat_bot\<lparr>current_signals := [(''Supertrend'', ''sell''), (''Golden Cross'', ''buy''), (''Bollinger Bands'', ''sell'')]\<rparr>"]
        majority_mode [of "flat_bot\<lparr>current_signals := [(''Supertrend'', ''hold''), (''Golden Cross'', ''hold''), (''Bollinger Bands'', ''sell'')]\<rparr>"]
        majority_mode [of "flat_bot\<lparr>current_signals := [(''Supertrend'', ''buy''), (''Golden Cross'', ''sell''), (''Bollinger Bands'', ''hold'')]\<rparr>"]
        majority_mode [of "flat_bot\<lparr>current_signals := []\<rparr>"]
  by simp

text \<open>
  C6. In any mode, with at least one signal, the combined signal is buy when some
  strategy says buy, wherever it stands; otherwise sell when some strategy says
  sell; otherwise hold.
\<close>

theorem any_mode:
  "current_signals b \<noteq> [] \<Longrightarrow>
   get_combined_signal b ''any'' =
     (if ''buy'' \<in> snd ` set (current_signals b) then ''buy''
      else if ''sell'' \<in> snd ` set (current_signals b) then ''sell''
      else ''hold'')"
  by (simp add: get_combined_signal_def Let_def)

theorem any_mode_witness:
  "current_signals
     (flat_bot\<lparr>current_signals := [(''Supertrend'', ''hold''), (''Golden Cross'', ''sell''), (''Bollinger Bands'', ''buy'')]\<rparr>)
     \<noteq> []
   \<and> get_combined_signal
     (flat_bot\<lparr>current_signals := [(''Supertrend'', ''hold''), (''Golden Cross'', ''sell''), (''Bollinger Bands'', ''buy'')]\<rparr>)
     ''any'' = ''buy''
   \<and> get_combined_signal
     (flat_bot\<lparr>current_signals := [(''Supertrend'', ''hold''), (''Golden Cross'', ''sell'')]\<rparr>)
     ''any'' = ''sell''
   \<and> get_combined_signal
     (flat_bot\<lparr>current_signals := [(''Supertrend'', ''hold'')]\<rparr>)
     ''any'' = ''hold''"
  using any_mode [of "flat_bot\<lparr>current_signals := [(''Supertrend'', ''hold''), (''Golden Cross'', ''sell''), (''Bollinger Bands'', ''buy'')]\<rparr>"]
        any_mode [of "flat_bot\<lparr>current_signals := [(''Supertrend'', ''hold''), (''Golden Cross'', ''sell'')]\<rparr>"]
        any_mode [of "flat_bot\<lparr>current_signals := [(''Supertrend'', ''hold'')]\<rparr>"]
  by simp

section \<open>Fetching data\<close>

lemma convert_timestamps_rows:
  "convert_timestamps to_datetime cs = Inr df \<Longrightarrow>
   length df = length cs
   \<and> (\<forall>i < length cs. to_datetime (timestamp (cs ! i)) = Inr (timestamp (df ! i))
                      \<and> df ! i = (cs ! i)\<lparr>timestamp := timestamp (df ! i)\<rparr>)"
proof (induction cs arbitrary: df)
  case Nil
  then show ?case by simp
next
  case (Cons c cs)
  from Cons.prems obtain t cs' where t: "to_datetime (timestamp c) = Inr t"
    and cs': "convert_timestamps to_datetime cs = Inr cs'" and df: "df = c\<lparr>timestamp := t\<rparr> # cs'"
    by (auto split: sum.splits)
  from Cons.IH [OF cs'] have ih: "length cs' = length cs"
    "\<And>i. i < length cs \<Longrightarrow> to_datetime (timestamp (cs ! i)) = Inr (timestamp (cs' ! i))
                      \<and> cs' ! i = (cs ! i)\<lparr>timestamp := timestamp (cs' ! i)\<rparr>"
    by simp_all
  show ?case
  proof (intro conjI allI impI)
    show "length df = length (c # cs)" using df ih(1) by simp
  next
    fix i assume "i < length (c # cs)"
    then show "to_datetime (timestamp ((c # cs) ! i)) = Inr (timestamp (df ! i))"
      using df t ih(2) by (cases i) simp_all
  next
    fix i assume "i < length (c # cs)"
    then show "df ! i = ((c # cs) ! i)\<lparr>timestamp := timestamp (df ! i)\<rparr>"
      using df t ih(2) by (cases i) simp_all
  qed
qed

lemma convert_timestamps_succeeds:
  "(\<forall>c \<in> set cs. \<exists>t. to_datetime (timestamp c) = Inr t) \<Longrightarrow> \<exists>df. convert_timestamps to_datetime cs = Inr df"
  by (induction cs) auto

lemma convert_timestamps_fails:
  "c \<in> set cs \<Longrightarrow> to_datetime (timestamp c) = Inl e \<Longrightarrow> \<exists>e'. convert_timestamps to_datetime cs = Inl e'"
proof (induction cs)
  case Nil
  then show ?case by simp
next
  case (Cons a cs)
  show ?case
  proof (cases "to_datetime (timestamp a)")
    case (Inl e')
    then show ?thesis by simp
  next
    case (Inr t)
    with Cons.prems have "c \<in> set cs" by auto
    then have "\<exists>e'. convert_timestamps to_datetime cs = Inl e'"
      using Cons.prems(2) by (rule Cons.IH)
    then show ?thesis using Inr by auto
  qed
qed

text \<open>
  C9. When the exchange returns a non-empty list of bars and \<^verbatim>\<open>pd.to_datetime\<close> converts
  the timestamp of every bar but the last (which is not read), \<open>fetch_data\<close> stores and
  returns a frame of one row less: row \<open>i\<close> is bar \<open>i\<close> with its timestamp converted,
  and the last bar is left out. When the conversion of one of those timestamps raises,
  or the exchange raises, the result is None and the bot, its stored data included,
  is unchanged; and whenever the result is None the bot is unchanged.
\<close>

theorem fetch_data_drops_last_bar:
  "(exchange b symbol timeframe limit = Inr bars \<and> bars \<noteq> []
      \<and> (\<forall>c \<in> set (butlast bars). \<exists>t. to_datetime (timestamp c) = Inr t)
      \<longrightarrow> (\<exists>df. fetch_data to_datetime b symbol timeframe limit = (Some df, b\<lparr>data := Some df\<rparr>)
               \<and> length df = length bars - 1
               \<and> (\<forall>i < length bars - 1.
                     to_datetime (timestamp (bars ! i)) = Inr (timestamp (df ! i))
                     \<and> df ! i = (bars ! i)\<lparr>timestamp := timestamp (df ! i)\<rparr>)))
   \<and> (exchange b symbol timeframe limit = Inr bars
      \<and> (\<exists>c \<in> set (butlast bars). \<exists>e'. to_datetime (timestamp c) = Inl e')
      \<longrightarrow> fetch_data to_datetime b symbol timeframe limit = (None, b))
   \<and> (exchange b symbol timeframe limit = Inl e \<longrightarrow> fetch_data to_datetime b symbol timeframe limit = (None, b))
   \<and> (fst (fetch_data to_datetime b symbol timeframe limit) = None
        \<longrightarrow> snd (fetch_data to_datetime b symbol timeframe limit) = b)"
proof (intro conjI impI)
  assume a: "exchange b symbol timeframe limit = Inr bars \<and> bars \<noteq> []
      \<and> (\<forall>c \<in> set (butlast bars). \<exists>t. to_datetime (timestamp c) = Inr t)"
  then obtain df where df: "convert_timestamps to_datetime (butlast bars) = Inr df"
    using convert_timestamps_succeeds by blast
  from convert_timestamps_rows [OF df]
  have rows: "length df = length bars - 1"
    "\<forall>i < length bars - 1. to_datetime (timestamp (butlast bars ! i)) = Inr (timestamp (df ! i))
                      \<and> df ! i = (butlast bars ! i)\<lparr>timestamp := timestamp (df ! i)\<rparr>"
    by simp_all
  have "fetch_data to_datetime b symbol timeframe limit = (Some df, b\<lparr>data := Some df\<rparr>)"
    using a df by (simp add: fetch_data_def)
  moreover have "\<forall>i < length bars - 1.
                     to_datetime (timestamp (bars ! i)) = Inr (timestamp (df ! i))
                     \<and> df ! i = (bars ! i)\<lparr>timestamp := timestamp (df ! i)\<rparr>"
    using rows(2) by (simp add: nth_butlast)
  ultimately show "\<exists>df. fetch_data to_datetime b symbol timeframe limit = (Some df, b\<lparr>data := Some df\<rparr>)
               \<and> length df = length bars - 1
               \<and> (\<forall>i < length bars - 1.
                     to_datetime (timestamp (bars ! i)) = Inr (timestamp (df ! i))
                     \<and> df ! i = (bars ! i)\<lparr>timestamp := timestamp (df ! i)\<rparr>)"
    using rows(1) by blast
next
  assume a: "exchange b symbol timeframe limit = Inr bars
      \<and> (\<exists>c \<in> set (butlast bars). \<exists>e'. to_datetime (timestamp c) = Inl e')"
  then obtain c e' where "c \<in> set (butlast bars)" "to_datetime (timestamp c) = Inl e'" by auto
  then have "\<exists>e. convert_timestamps to_datetime (butlast bars) = Inl e"
    by (rule convert_timestamps_fails)
  with a show "fetch_data to_datetime b symbol timeframe limit = (None, b)"
    by (auto simp add: fetch_data_def)
next
  assume "exchange b symbol timeframe limit = Inl e"
  then show "fetch_data to_datetime b symbol timeframe limit = (None, b)"
    by (simp add: fetch_data_def)
next
  assume "fst (fetch_data to_datetime b symbol timeframe limit) = None"
  then show "snd (fetch_data to_datetime b symbol timeframe limit) = b"
    by (auto simp add: fetch_data_def split: sum.splits)
qed

theorem fetch_data_drops_last_bar_witness:
  "exchange (flat_bot\<lparr>exchange := (\<lambda>symbol timeframe limit. Inr three_bars)\<rparr>) ''BTC/USDT'' ''1m'' 100 = Inr three_bars
   \<and> three_bars \<noteq> []
   \<and> map (\<lambda>c. ms_to_ns (timestamp c)) (butlast three_bars) = [Inr 60000000000, Inr 120000000000]
   \<and> fetch_data ms_to_ns (flat_bot\<lparr>exchange := (\<lambda>symbol timeframe limit. Inr three_bars)\<rparr>) ''BTC/USDT'' ''1m'' 100
     = (Some [bar 60000000000 100 101 99 100, bar 120000000000 100 102 100 101],
        flat_bot\<lparr>exchange := (\<lambda>symbol timeframe limit. Inr three_bars),
                 data := Some [bar 60000000000 100 101 99 100, bar 120000000000 100 102 100 101]\<rparr>)
   \<and> exchange (flat_bot\<lparr>data := Some three_bars\<rparr>) ''BTC/USDT'' ''1m'' 100 = Inl FetchError
   \<and> fetch_data ms_to_ns (flat_bot\<lparr>data := Some three_bars\<rparr>) ''BTC/USDT'' ''1m'' 100
     = (None, flat_bot\<lparr>data := Some three_bars\<rparr>)
   \<and> map (\<lambda>c. ms_to_ns (timestamp c)) (butlast far_future_bars) = [Inl OutOfBoundsDatetime]
   \<and> fetch_data ms_to_ns (flat_bot\<lparr>exchange := (\<lambda>symbol timeframe limit. Inr far_future_bars),
                                     data := Some three_bars\<rparr>) ''BTC/USDT'' ''1m'' 100
     = (None, flat_bot\<lparr>exchange := (\<lambda>symbol timeframe limit. Inr far_future_bars), data := Some three_bars\<rparr>)"
  using fetch_data_drops_last_bar
          [where b = "flat_bot\<lparr>exchange := (\<lambda>symbol timeframe limit. Inr three_bars)\<rparr>"
             and symbol = "''BTC/USDT''" and timeframe = "''1m''" and limit = 100
             and bars = three_bars and to_datetime = ms_to_ns]
        fetch_data_drops_last_bar
          [where b = "flat_bot\<lparr>data := Some three_bars\<rparr>"
             and symbol = "''BTC/USDT''" and timeframe = "''1m''" and limit = 100
             and e = FetchError and to_datetime = ms_to_ns]
        fetch_data_drops_last_bar
          [where b = "flat_bot\<lparr>exchange := (\<lambda>symbol timeframe limit. Inr far_future_bars),
                               data := Some three_bars\<rparr>"
             and symbol = "''BTC/USDT''" and timeframe = "''1m''" and limit = 100
             and bars = far_future_bars and to_datetime = ms_to_ns]
  by (simp add: fetch_data_def three_bars_def far_future_bars_def bar_def ms_to_ns_def flat_bot_def)

text \<open>
  The exchange returns two bars, the first stamped 10^13 ms: the conversion inside the
  \<^verbatim>\<open>try\<close> raises and \<open>fetch_data\<close> returns None, not a frame of one row.
\<close>

theorem fetch_data_drops_last_bar_counterexample:
  "exchange (flat_bot\<lparr>exchange := (\<lambda>symbol timeframe limit. Inr far_future_bars)\<rparr>) ''BTC/USDT'' ''1m'' 100
     = Inr far_future_bars
   \<and> length far_future_bars = 2
   \<and> ms_to_ns (timestamp (far_future_bars ! 0)) = Inl OutOfBoundsDatetime
   \<and> fetch_data ms_to_ns (flat_bot\<lparr>exchange := (\<lambda>symbol timeframe limit. Inr far_future_bars)\<rparr>) ''BTC/USDT'' ''1m'' 100
     = (None, flat_bot\<lparr>exchange := (\<lambda>symbol timeframe limit. Inr far_future_bars)\<rparr>)"
  by (simp add: fetch_data_def far_future_bars_def bar_def ms_to_ns_def flat_bot_def)

section \<open>The strategy runner\<close>













section \<open>Floats, rolling windows and positions\<close>

text \<open>
  Comparisons with NaN, the length of a rolling column and its NaN head, and
  \<^verbatim>\<open>.iloc[-1]\<close> on a non-empty column.
\<close>

lemma flt_None [simp]: "\<not> flt None b" "\<not> flt a None"
  by (simp_all add: flt_def split: option.splits)

lemma fle_None [simp]: "\<not> fle None b" "\<not> fle a None"
  by (simp_all add: fle_def split: option.splits)

lemma fgt_None [simp]: "\<not> fgt None b" "\<not> fgt a None"
  by (simp_all add: fgt_def)

lemma fge_None [simp]: "\<not> fge None b" "\<not> fge a None"
  by (simp_all add: fge_def)

lemma length_dropna_le: "length (dropna xs) \<le> length xs"
  by (induction xs rule: dropna.induct) simp_all

lemma length_window_le: "length (window w xs i) \<le> Suc i"
  by (simp add: window_def)

lemma rolling_mean_length: "rolling_mean w xs = Inr ys \<Longrightarrow> length ys = length xs"
  by (auto simp add: rolling_mean_def split: if_splits)

lemma rolling_mean_short:
  assumes "rolling_mean w xs = Inr ys" and "i < length xs" and "Suc i < nat w"
  shows "ys ! i = None"
proof -
  have "length (dropna (window (nat w) xs i)) \<le> Suc i"
    using length_dropna_le [of "window (nat w) xs i"] length_window_le [of "nat w" xs i] by linarith
  with assms(3) have "\<not> nat w \<le> length (dropna (window (nat w) xs i))" by linarith
  with assms(1,2) show ?thesis
    by (auto simp add: rolling_mean_def Let_def split: if_splits)
qed

lemma iloc_last: "xs \<noteq> [] \<Longrightarrow> iloc xs (- 1) = Inr (xs ! (length xs - 1))"
proof -
  assume "xs \<noteq> []"
  then have pos: "0 < length xs" by simp
  then have "nat (int (length xs) - 1) = length xs - 1" by arith
  moreover from pos have "- int (length xs) \<le> - 1" by arith
  ultimately show ?thesis by (simp add: iloc_def)
qed

lemma iloc_empty: "iloc [] i = Inl IndexError"
  by (simp add: iloc_def)

section \<open>Golden Cross: the crossover flags\<close>

lemma gc_step_fields [simp]:
  "gc_rows (gc_step i f) = gc_rows f"
  "ma_short (gc_step i f) = ma_short f"
  "ma_long (gc_step i f) = ma_long f"
  "length (golden_cross (gc_step i f)) = length (golden_cross f)"
  "length (death_cross (gc_step i f)) = length (death_cross f)"
  by (simp_all add: gc_step_def Let_def)

lemma gc_step_golden:
  "j < length (golden_cross f) \<Longrightarrow>
   golden_cross (gc_step i f) ! j =
     (golden_cross f ! j \<or>
      (j = i \<and> fle (ma_short f ! (i - 1)) (ma_long f ! (i - 1)) \<and> fgt (ma_short f ! i) (ma_long f ! i)))"
  by (cases "j = i") (auto simp add: gc_step_def Let_def)

lemma gc_step_death:
  "j < length (death_cross f) \<Longrightarrow>
   death_cross (gc_step i f) ! j =
     (death_cross f ! j \<or>
      (j = i \<and> fge (ma_short f ! (i - 1)) (ma_long f ! (i - 1)) \<and> flt (ma_short f ! i) (ma_long f ! i)))"
  by (cases "j = i") (auto simp add: gc_step_def Let_def)

lemma gc_fold_fields [simp]:
  "gc_rows (fold gc_step ks f) = gc_rows f"
  "ma_short (fold gc_step ks f) = ma_short f"
  "ma_long (fold gc_step ks f) = ma_long f"
  "length (golden_cross (fold gc_step ks f)) = length (golden_cross f)"
  "length (death_cross (fold gc_step ks f)) = length (death_cross f)"
  by (induction ks arbitrary: f) simp_all

lemma gc_fold_golden:
  "j < length (golden_cross f) \<Longrightarrow>
   golden_cross (fold gc_step [1..<k] f) ! j =
     (golden_cross f ! j \<or>
      (1 \<le> j \<and> j < k \<and> fle (ma_short f ! (j - 1)) (ma_long f ! (j - 1)) \<and> fgt (ma_short f ! j) (ma_long f ! j)))"
proof (induction k)
  case 0
  then show ?case by simp
next
  case (Suc k)
  show ?case
  proof (cases "1 \<le> k")
    case False
    then have "k = 0" by simp
    then show ?thesis by auto
  next
    case True
    then have "[1..<Suc k] = [1..<k] @ [k]" by simp
    then have "golden_cross (fold gc_step [1..<Suc k] f) ! j
                 = golden_cross (gc_step k (fold gc_step [1..<k] f)) ! j" by simp
    also have "\<dots> = (golden_cross (fold gc_step [1..<k] f) ! j \<or>
      (j = k \<and> fle (ma_short f ! (k - 1)) (ma_long f ! (k - 1)) \<and> fgt (ma_short f ! k) (ma_long f ! k)))"
      using Suc.prems by (simp add: gc_step_golden)
    finally show ?thesis using Suc True by (auto simp add: less_Suc_eq)
  qed
qed

lemma gc_fold_death:
  "j < length (death_cross f) \<Longrightarrow>
   death_cross (fold gc_step [1..<k] f) ! j =
     (death_cross f ! j \<or>
      (1 \<le> j \<and> j < k \<and> fge (ma_short f ! (j - 1)) (ma_long f ! (j - 1)) \<and> flt (ma_short f ! j) (ma_long f ! j)))"
proof (induction k)
  case 0
  then show ?case by simp
next
  case (Suc k)
  show ?case
  proof (cases "1 \<le> k")
    case False
    then have "k = 0" by simp
    then show ?thesis by auto
  next
    case True
    then have "[1..<Suc k] = [1..<k] @ [k]" by simp
    then have "death_cross (fold gc_step [1..<Suc k] f) ! j
                 = death_cross (gc_step k (fold gc_step [1..<k] f)) ! j" by simp
    also have "\<dots> = (death_cross (fold gc_step [1..<k] f) ! j \<or>
      (j = k \<and> fge (ma_short f ! (k - 1)) (ma_long f ! (k - 1)) \<and> flt (ma_short f ! k) (ma_long f ! k)))"
      using Suc.prems by (simp add: gc_step_death)
    finally show ?thesis using Suc True by (auto simp add: less_Suc_eq)
  qed
qed

lemma gc_calculate_frame:
  assumes "gc_calculate short_period long_period series = Inr f"
  shows "gc_rows f = series"
    and "rolling_mean short_period (map close series) = Inr (ma_short f)"
    and "rolling_mean long_period (map close series) = Inr (ma_long f)"
    and "length (golden_cross f) = length series"
    and "length (death_cross f) = length series"
    and "j < length series \<Longrightarrow> golden_cross f ! j =
           (1 \<le> j \<and> fle (ma_short f ! (j - 1)) (ma_long f ! (j - 1)) \<and> fgt (ma_short f ! j) (ma_long f ! j))"
    and "j < length series \<Longrightarrow> death_cross f ! j =
           (1 \<le> j \<and> fge (ma_short f ! (j - 1)) (ma_long f ! (j - 1)) \<and> flt (ma_short f ! j) (ma_long f ! j))"
proof -
  from assms obtain ms ml where ms: "rolling_mean short_period (map close series) = Inr ms"
    and ml: "rolling_mean long_period (map close series) = Inr ml"
    and f: "f = fold gc_step [1..<length series]
                  \<lparr>gc_rows = series, ma_short = ms, ma_long = ml,
                   golden_cross = replicate (length series) False,
                   death_cross = replicate (length series) False\<rparr>"
    by (cases "2 \<le> length series")
       (auto simp add: gc_calculate_def Let_def not_le less_Suc_eq numeral_2_eq_2 split: sum.splits)
  show "gc_rows f = series" "rolling_mean short_period (map close series) = Inr (ma_short f)"
    "rolling_mean long_period (map close series) = Inr (ma_long f)"
    "length (golden_cross f) = length series" "length (death_cross f) = length series"
    using ms ml by (simp_all add: f)
  show "golden_cross f ! j =
           (1 \<le> j \<and> fle (ma_short f ! (j - 1)) (ma_long f ! (j - 1)) \<and> fgt (ma_short f ! j) (ma_long f ! j))"
    if "j < length series"
    using that unfolding f by (subst gc_fold_golden) auto
  show "death_cross f ! j =
           (1 \<le> j \<and> fge (ma_short f ! (j - 1)) (ma_long f ! (j - 1)) \<and> flt (ma_short f ! j) (ma_long f ! j))"
    if "j < length series"
    using that unfolding f by (subst gc_fold_death) auto
qed

text \<open>
  C8. In the frame returned by \<open>calculate\<close>, a bar is marked neither golden cross nor
  death cross when it is the first bar of the series or when either moving average is
  NaN at that bar or at the bar before it; if it is the last bar, \<open>get_signal\<close> returns
  hold. In particular a bar before which no bar has both averages defined, such as
  the first bar at which both are defined, is not marked.
\<close>

theorem golden_cross_guard:
  assumes "gc_calculate short_period long_period series = Inr f" and "i < length series"
  shows "(i = 0 \<or> ma_short f ! i = None \<or> ma_long f ! i = None
            \<or> ma_short f ! (i - 1) = None \<or> ma_long f ! (i - 1) = None
          \<longrightarrow> \<not> golden_cross f ! i \<and> \<not> death_cross f ! i
              \<and> (Suc i = length series \<longrightarrow> gc_get_signal f = Inr ''hold''))
       \<and> ((\<forall>j < i. ma_short f ! j = None \<or> ma_long f ! j = None)
          \<longrightarrow> \<not> golden_cross f ! i \<and> \<not> death_cross f ! i)"
proof -
  note fr = gc_calculate_frame [OF assms(1)]
  have g: "golden_cross f ! i =
           (1 \<le> i \<and> fle (ma_short f ! (i - 1)) (ma_long f ! (i - 1)) \<and> fgt (ma_short f ! i) (ma_long f ! i))"
    using assms(2) by (rule fr(6))
  have d: "death_cross f ! i =
           (1 \<le> i \<and> fge (ma_short f ! (i - 1)) (ma_long f ! (i - 1)) \<and> flt (ma_short f ! i) (ma_long f ! i))"
    using assms(2) by (rule fr(7))
  have undef: "\<not> golden_cross f ! i \<and> \<not> death_cross f ! i"
    if h: "i = 0 \<or> ma_short f ! i = None \<or> ma_long f ! i = None
            \<or> ma_short f ! (i - 1) = None \<or> ma_long f ! (i - 1) = None"
  proof -
    from h have "\<not> (1 \<le> i \<and> fle (ma_short f ! (i - 1)) (ma_long f ! (i - 1)) \<and> fgt (ma_short f ! i) (ma_long f ! i))"
      by (elim disjE) simp_all
    moreover from h have "\<not> (1 \<le> i \<and> fge (ma_short f ! (i - 1)) (ma_long f ! (i - 1)) \<and> flt (ma_short f ! i) (ma_long f ! i))"
      by (elim disjE) simp_all
    ultimately show ?thesis unfolding g d by (rule conjI)
  qed
  have sig: "gc_get_signal f = Inr ''hold''"
    if "\<not> golden_cross f ! i \<and> \<not> death_cross f ! i" "Suc i = length series"
  proof -
    from that(2) fr(4,5) have ne: "golden_cross f \<noteq> []" "death_cross f \<noteq> []"
      and last: "length (golden_cross f) - 1 = i" "length (death_cross f) - 1 = i" by auto
    have "iloc (golden_cross f) (- 1) = Inr False"
      using iloc_last [OF ne(1)] that(1) last(1) by simp
    moreover have "iloc (death_cross f) (- 1) = Inr False"
      using iloc_last [OF ne(2)] that(1) last(2) by simp
    ultimately show ?thesis
      by (simp add: gc_get_signal_def)
  qed
  have first: "\<not> golden_cross f ! i \<and> \<not> death_cross f ! i"
    if "\<forall>j < i. ma_short f ! j = None \<or> ma_long f ! j = None"
  proof (cases "i = 0")
    case True
    then show ?thesis by (rule undef [OF disjI1])
  next
    case False
    then have "i - 1 < i" by simp
    then have "ma_short f ! (i - 1) = None \<or> ma_long f ! (i - 1) = None"
      by (rule that [rule_format])
    then have "i = 0 \<or> ma_short f ! i = None \<or> ma_long f ! i = None
            \<or> ma_short f ! (i - 1) = None \<or> ma_long f ! (i - 1) = None" by simp
    then show ?thesis by (rule undef)
  qed
  show ?thesis
  proof (intro conjI impI)
    assume h: "i = 0 \<or> ma_short f ! i = None \<or> ma_long f ! i = None
            \<or> ma_short f ! (i - 1) = None \<or> ma_long f ! (i - 1) = None"
    from undef [OF h] show "\<not> golden_cross f ! i" "\<not> death_cross f ! i" by simp_all
    assume "Suc i = length series"
    with undef [OF h] show "gc_get_signal f = Inr ''hold''" by (rule sig)
  next
    assume h: "\<forall>j < i. ma_short f ! j = None \<or> ma_long f ! j = None"
    from first [OF h] show "\<not> golden_cross f ! i" "\<not> death_cross f ! i" by simp_all
  qed
qed

theorem golden_cross_guard_witness:
  "gc_calculate 1 2 two_bars
     = Inr \<lparr>gc_rows = two_bars, ma_short = [Some 100, Some 110], ma_long = [None, Some 105],
            golden_cross = [False, False], death_cross = [False, False]\<rparr>
   \<and> (1::nat) < length two_bars
   \<and> ma_long \<lparr>gc_rows = two_bars, ma_short = [Some 100, Some 110], ma_long = [None, Some 105],
            golden_cross = [False, False], death_cross = [False, False]\<rparr> ! (1 - 1) = None
   \<and> \<not> golden_cross \<lparr>gc_rows = two_bars, ma_short = [Some 100, Some 110], ma_long = [None, Some 105],
            golden_cross = [False, False], death_cross = [False, False]\<rparr> ! 1
   \<and> \<not> death_cross \<lparr>gc_rows = two_bars, ma_short = [Some 100, Some 110], ma_long = [None, Some 105],
            golden_cross = [False, False], death_cross = [False, False]\<rparr> ! 1
   \<and> gc_get_signal \<lparr>gc_rows = two_bars, ma_short = [Some 100, Some 110], ma_long = [None, Some 105],
            golden_cross = [False, False], death_cross = [False, False]\<rparr> = Inr ''hold''"
proof -
  have c: "gc_calculate 1 2 two_bars
     = Inr \<lparr>gc_rows = two_bars, ma_short = [Some 100, Some 110], ma_long = [None, Some 105],
            golden_cross = [False, False], death_cross = [False, False]\<rparr>"
    by code_simp
  have l: "(1::nat) < length two_bars" "Suc 1 = length two_bars"
    by (simp_all add: two_bars_def)
  from golden_cross_guard [OF c l(1)] l(2)
  show ?thesis using c l(1) by simp
qed

section \<open>Supertrend: the band ratchet\<close>

lemma flt_irrefl [simp]: "\<not> flt a a"
  by (simp add: flt_def split: option.splits)

lemma st_step_fields [simp]:
  "st_rows (st_step k f) = st_rows f"
  "atr_col (st_step k f) = atr_col f"
  "length (upperband (st_step k f)) = length (upperband f)"
  "length (lowerband (st_step k f)) = length (lowerband f)"
  "length (in_uptrend (st_step k f)) = length (in_uptrend f)"
  by (simp_all add: st_step_def Let_def)

lemma st_step_other:
  assumes "j \<noteq> k"
  shows "upperband (st_step k f) ! j = upperband f ! j"
    and "lowerband (st_step k f) ! j = lowerband f ! j"
    and "in_uptrend (st_step k f) ! j = in_uptrend f ! j"
  using assms by (simp_all add: st_step_def Let_def)

lemma st_fold_fields [simp]:
  "st_rows (fold st_step ks f) = st_rows f"
  "atr_col (fold st_step ks f) = atr_col f"
  "length (upperband (fold st_step ks f)) = length (upperband f)"
  "length (lowerband (fold st_step ks f)) = length (lowerband f)"
  "length (in_uptrend (fold st_step ks f)) = length (in_uptrend f)"
  by (induction ks arbitrary: f) simp_all

lemma st_fold_other:
  assumes "j \<notin> set ks"
  shows "upperband (fold st_step ks f) ! j = upperband f ! j"
    and "lowerband (fold st_step ks f) ! j = lowerband f ! j"
    and "in_uptrend (fold st_step ks f) ! j = in_uptrend f ! j"
  using assms by (induction ks arbitrary: f) (simp_all add: st_step_other)

text \<open>What one pass of the loop body establishes between row \<open>k - 1\<close> and row \<open>k\<close>.\<close>

lemma st_step_ratchet:
  assumes "1 \<le> k" and "k < length (in_uptrend f)" and "k < length (lowerband f)" and "k < length (upperband f)"
  shows "in_uptrend (st_step k f) ! (k - 1) \<and> in_uptrend (st_step k f) ! k
           \<and> \<not> fgt (close (st_rows f ! k)) (upperband (st_step k f) ! (k - 1))
         \<longrightarrow> \<not> flt (lowerband (st_step k f) ! k) (lowerband (st_step k f) ! (k - 1))"
    and "\<not> in_uptrend (st_step k f) ! (k - 1) \<and> \<not> in_uptrend (st_step k f) ! k
           \<and> \<not> flt (close (st_rows f ! k)) (lowerband (st_step k f) ! (k - 1))
         \<longrightarrow> \<not> fgt (upperband (st_step k f) ! k) (upperband (st_step k f) ! (k - 1))"
proof -
  from assms(1) have ne: "k - 1 \<noteq> k" by simp
  have prev: "upperband (st_step k f) ! (k - 1) = upperband f ! (k - 1)"
    "lowerband (st_step k f) ! (k - 1) = lowerband f ! (k - 1)"
    "in_uptrend (st_step k f) ! (k - 1) = in_uptrend f ! (k - 1)"
    using ne by (simp_all add: st_step_other)
  show "in_uptrend (st_step k f) ! (k - 1) \<and> in_uptrend (st_step k f) ! k
           \<and> \<not> fgt (close (st_rows f ! k)) (upperband (st_step k f) ! (k - 1))
         \<longrightarrow> \<not> flt (lowerband (st_step k f) ! k) (lowerband (st_step k f) ! (k - 1))"
    unfolding prev using assms(2,3,4)
    by (simp add: st_step_def Let_def fgt_def)
  show "\<not> in_uptrend (st_step k f) ! (k - 1) \<and> \<not> in_uptrend (st_step k f) ! k
           \<and> \<not> flt (close (st_rows f ! k)) (lowerband (st_step k f) ! (k - 1))
         \<longrightarrow> \<not> fgt (upperband (st_step k f) ! k) (upperband (st_step k f) ! (k - 1))"
    unfolding prev using assms(2,3,4)
    by (simp add: st_step_def Let_def fgt_def)
qed

lemma atr_length: "atr series period = Inr a \<Longrightarrow> length a = length series"
  by (simp add: atr_def tr_def shift1_def rolling_mean_length)

lemma st_calculate_frame:
  assumes "st_calculate period multiplier series = Inr f"
  obtains a f0 where "atr series period = Inr a"
    and "f = fold st_step [1..<length series] f0"
    and "st_rows f0 = series" and "atr_col f0 = a"
    and "length (upperband f0) = length series" and "length (lowerband f0) = length series"
    and "in_uptrend f0 = replicate (length series) True"
    and "\<forall>i < length series.
           upperband f0 ! i = fadd (fhalf (fadd (high (series ! i)) (low (series ! i)))) (fmul (Some multiplier) (a ! i))"
    and "\<forall>i < length series.
           lowerband f0 ! i = fsub (fhalf (fadd (high (series ! i)) (low (series ! i)))) (fmul (Some multiplier) (a ! i))"
proof -
  from assms obtain a where a: "atr series period = Inr a"
    by (auto simp add: st_calculate_def split: sum.splits)
  then have la: "length a = length series" by (rule atr_length)
  define hl2 where "hl2 = map (\<lambda>c. fhalf (fadd (high c) (low c))) series"
  define f0 where "f0 = \<lparr>st_rows = series, atr_col = a,
      upperband = map (\<lambda>(h, x). fadd h (fmul (Some multiplier) x)) (zip hl2 a),
      lowerband = map (\<lambda>(h, x). fsub h (fmul (Some multiplier) x)) (zip hl2 a),
      in_uptrend = replicate (length series) True\<rparr>"
  have f: "f = fold st_step [1..<length series] f0"
    using assms a by (simp add: st_calculate_def Let_def f0_def hl2_def)
  show ?thesis
  proof (rule that [OF a f])
    show "st_rows f0 = series" "atr_col f0 = a" "in_uptrend f0 = replicate (length series) True"
      by (simp_all add: f0_def)
    show "length (upperband f0) = length series" "length (lowerband f0) = length series"
      by (simp_all add: f0_def hl2_def la)
    show "\<forall>i < length series.
           upperband f0 ! i = fadd (fhalf (fadd (high (series ! i)) (low (series ! i)))) (fmul (Some multiplier) (a ! i))"
      by (simp add: f0_def hl2_def la)
    show "\<forall>i < length series.
           lowerband f0 ! i = fsub (fhalf (fadd (high (series ! i)) (low (series ! i)))) (fmul (Some multiplier) (a ! i))"
      by (simp add: f0_def hl2_def la)
  qed
qed

lemma st_fold_ratchet:
  assumes "1 \<le> i" and "i < n"
    and "length (in_uptrend f0) = n" and "length (lowerband f0) = n" and "length (upperband f0) = n"
  defines "f \<equiv> fold st_step [1..<n] f0"
  shows "in_uptrend f ! (i - 1) \<and> in_uptrend f ! i
           \<and> \<not> fgt (close (st_rows f0 ! i)) (upperband f ! (i - 1))
         \<longrightarrow> \<not> flt (lowerband f ! i) (lowerband f ! (i - 1))"
    and "\<not> in_uptrend f ! (i - 1) \<and> \<not> in_uptrend f ! i
           \<and> \<not> flt (close (st_rows f0 ! i)) (lowerband f ! (i - 1))
         \<longrightarrow> \<not> fgt (upperband f ! i) (upperband f ! (i - 1))"
proof -
  define h where "h = fold st_step [1..<i] f0"
  define g where "g = st_step i h"
  have "i + (n - i) = n" using assms(2) by simp
  with upt_add_eq_append [OF assms(1), of "n - i"] have "[1..<n] = [1..<i] @ [i..<n]" by simp
  moreover have "[i..<n] = i # [Suc i..<n]" using assms(2) by (rule upt_conv_Cons)
  ultimately have "[1..<n] = [1..<i] @ [i] @ [Suc i..<n]" by simp
  then have f: "f = fold st_step [Suc i..<n] g"
    by (simp add: f_def g_def h_def)
  have later: "i \<notin> set [Suc i..<n]" "i - 1 \<notin> set [Suc i..<n]" by auto
  note same = st_fold_other [OF later(1), of g, folded f] st_fold_other [OF later(2), of g, folded f]
  have len: "i < length (in_uptrend h)" "i < length (lowerband h)" "i < length (upperband h)"
    using assms(2,3,4,5) by (simp_all add: h_def)
  have rows: "st_rows h = st_rows f0" by (simp add: h_def)
  from st_step_ratchet [OF assms(1) len, folded g_def, unfolded rows]
  show "in_uptrend f ! (i - 1) \<and> in_uptrend f ! i
           \<and> \<not> fgt (close (st_rows f0 ! i)) (upperband f ! (i - 1))
         \<longrightarrow> \<not> flt (lowerband f ! i) (lowerband f ! (i - 1))"
    and "\<not> in_uptrend f ! (i - 1) \<and> \<not> in_uptrend f ! i
           \<and> \<not> flt (close (st_rows f0 ! i)) (lowerband f ! (i - 1))
         \<longrightarrow> \<not> fgt (upperband f ! i) (upperband f ! (i - 1))"
    unfolding same by simp_all
qed

text \<open>
  C1. The ratchet works in the third branch of the loop only. In the frame returned by
  \<open>calculate\<close>, when two consecutive bars are both marked in-uptrend and the later
  bar's close is not above the earlier bar's upper band, the later lower band is not
  less than the earlier one (so at least the earlier one when both are defined); when
  both are marked in-downtrend and the later bar's close is not below the earlier
  bar's lower band, the later upper band is not greater than the earlier one.
\<close>

theorem supertrend_ratchet:
  assumes "st_calculate period multiplier series = Inr f" and "1 \<le> i" and "i < length series"
  shows "(in_uptrend f ! (i - 1) \<and> in_uptrend f ! i
            \<and> \<not> fgt (close (series ! i)) (upperband f ! (i - 1))
          \<longrightarrow> \<not> flt (lowerband f ! i) (lowerband f ! (i - 1))
              \<and> (\<forall>x y. lowerband f ! (i - 1) = Some x \<and> lowerband f ! i = Some y \<longrightarrow> x \<le> y))
       \<and> (\<not> in_uptrend f ! (i - 1) \<and> \<not> in_uptrend f ! i
            \<and> \<not> flt (close (series ! i)) (lowerband f ! (i - 1))
          \<longrightarrow> \<not> fgt (upperband f ! i) (upperband f ! (i - 1))
              \<and> (\<forall>x y. upperband f ! (i - 1) = Some x \<and> upperband f ! i = Some y \<longrightarrow> y \<le> x))"
proof -
  from assms(1) obtain a f0 where f: "f = fold st_step [1..<length series] f0"
    and f0: "st_rows f0 = series" "length (upperband f0) = length series"
      "length (lowerband f0) = length series" "in_uptrend f0 = replicate (length series) True"
    by (rule st_calculate_frame)
  from f0(4) have lu: "length (in_uptrend f0) = length series" by simp
  note r = st_fold_ratchet [OF assms(2,3) lu f0(3) f0(2), folded f, unfolded f0(1)]
  have up: "\<forall>x y. lowerband f ! (i - 1) = Some x \<and> lowerband f ! i = Some y \<longrightarrow> x \<le> y"
    if "\<not> flt (lowerband f ! i) (lowerband f ! (i - 1))"
    using that by (simp add: flt_def split: option.splits)
  have down: "\<forall>x y. upperband f ! (i - 1) = Some x \<and> upperband f ! i = Some y \<longrightarrow> y \<le> x"
    if "\<not> fgt (upperband f ! i) (upperband f ! (i - 1))"
    using that by (simp add: fgt_def flt_def split: option.splits)
  show ?thesis
  proof (intro conjI impI)
    assume h: "in_uptrend f ! (i - 1) \<and> in_uptrend f ! i
            \<and> \<not> fgt (close (series ! i)) (upperband f ! (i - 1))"
    with r(1) show "\<not> flt (lowerband f ! i) (lowerband f ! (i - 1))" by (rule mp)
    then show "\<forall>x y. lowerband f ! (i - 1) = Some x \<and> lowerband f ! i = Some y \<longrightarrow> x \<le> y"
      by (rule up)
  next
    assume h: "\<not> in_uptrend f ! (i - 1) \<and> \<not> in_uptrend f ! i
            \<and> \<not> flt (close (series ! i)) (lowerband f ! (i - 1))"
    with r(2) show "\<not> fgt (upperband f ! i) (upperband f ! (i - 1))" by (rule mp)
    then show "\<forall>x y. upperband f ! (i - 1) = Some x \<and> upperband f ! i = Some y \<longrightarrow> y \<le> x"
      by (rule down)
  qed
qed

theorem supertrend_ratchet_witness:
  "st_calculate 1 1 uptrend_series = Inr uptrend_frame
   \<and> (1::nat) < length uptrend_series
   \<and> in_uptrend uptrend_frame ! (1 - 1) \<and> in_uptrend uptrend_frame ! 1
   \<and> \<not> fgt (close (uptrend_series ! 1)) (upperband uptrend_frame ! (1 - 1))
   \<and> \<not> flt (lowerband uptrend_frame ! 1) (lowerband uptrend_frame ! (1 - 1))
   \<and> st_calculate 1 1 downtrend_series = Inr downtrend_frame
   \<and> (2::nat) < length downtrend_series
   \<and> \<not> in_uptrend downtrend_frame ! (2 - 1) \<and> \<not> in_uptrend downtrend_frame ! 2
   \<and> \<not> flt (close (downtrend_series ! 2)) (lowerband downtrend_frame ! (2 - 1))
   \<and> \<not> fgt (upperband downtrend_frame ! 2) (upperband downtrend_frame ! (2 - 1))"
proof -
  have u: "st_calculate 1 1 uptrend_series = Inr uptrend_frame"
    by code_simp
  have d: "st_calculate 1 1 downtrend_series = Inr downtrend_frame"
    by code_simp
  have ul: "(1::nat) \<le> 1" "(1::nat) < length uptrend_series"
    by (simp_all add: uptrend_series_def)
  have dl: "(1::nat) \<le> 2" "(2::nat) < length downtrend_series"
    by (simp_all add: downtrend_series_def)
  have uh: "in_uptrend uptrend_frame ! (1 - 1) \<and> in_uptrend uptrend_frame ! 1
            \<and> \<not> fgt (close (uptrend_series ! 1)) (upperband uptrend_frame ! (1 - 1))"
    by (simp add: uptrend_frame_def uptrend_series_def bar_def fgt_def flt_def)
  have dh: "\<not> in_uptrend downtrend_frame ! (2 - 1) \<and> \<not> in_uptrend downtrend_frame ! 2
            \<and> \<not> flt (close (downtrend_series ! 2)) (lowerband downtrend_frame ! (2 - 1))"
    by (simp add: downtrend_frame_def downtrend_series_def bar_def flt_def)
  from supertrend_ratchet [OF u ul] uh
  have "\<not> flt (lowerband uptrend_frame ! 1) (lowerband uptrend_frame ! (1 - 1))" by simp
  moreover from supertrend_ratchet [OF d dl] dh
  have "\<not> fgt (upperband downtrend_frame ! 2) (upperband downtrend_frame ! (2 - 1))" by simp
  ultimately show ?thesis using u d ul(2) dl(2) uh dh by simp
qed

text \<open>
  With the default period 10 and multiplier 3, ten flat bars at 100 followed by a wide
  bar closing at 110 above the previous upper band: bars 9 and 10 are both in-uptrend
  and the lower band falls from 100 to 62.
\<close>

theorem supertrend_ratchet_counterexample:
  "st_calculate 10 3 breakout_series = Inr breakout_frame
   \<and> in_uptrend breakout_frame ! 9 \<and> in_uptrend breakout_frame ! 10
   \<and> lowerband breakout_frame ! 9 = Some 100 \<and> lowerband breakout_frame ! 10 = Some 62
   \<and> \<not> fge (lowerband breakout_frame ! 10) (lowerband breakout_frame ! 9)"
  by code_simp

section \<open>Short series\<close>

lemma iloc_nonneg: "0 \<le> i \<Longrightarrow> i < int (length xs) \<Longrightarrow> iloc xs i = Inr (xs ! nat i)"
  by (simp add: iloc_def)

lemma fadd_None [simp]: "fadd None b = None" "fadd a None = None"
  by (simp_all add: fadd_def split: option.splits)

lemma fsub_None [simp]: "fsub None b = None" "fsub a None = None"
  by (simp_all add: fsub_def split: option.splits)

lemma fmul_None [simp]: "fmul None b = None" "fmul a None = None"
  by (simp_all add: fmul_def split: option.splits)

lemma rolling_std_length: "rolling_std w xs = Inr ys \<Longrightarrow> length ys = length xs"
  by (auto simp add: rolling_std_def split: if_splits)

lemma rolling_mean_all_nan:
  assumes "rolling_mean w xs = Inr ys" and "int (length xs) < w" and "i < length xs"
  shows "ys ! i = None"
proof -
  from assms(2,3) have "Suc i < nat w" by linarith
  with assms(1,3) show ?thesis by (rule rolling_mean_short)
qed

text \<open>Supertrend on a series shorter than the period: no band is defined and no flag changes.\<close>

lemma st_step_nan:
  assumes "upperband f ! (k - 1) = None" and "lowerband f ! (k - 1) = None"
  shows "st_step k f = f\<lparr>in_uptrend := (in_uptrend f)[k := in_uptrend f ! (k - 1)]\<rparr>"
  using assms by (simp add: st_step_def Let_def)

lemma st_fold_nan:
  assumes "\<And>i. i < n \<Longrightarrow> upperband f ! i = None" and "\<And>i. i < n \<Longrightarrow> lowerband f ! i = None"
    and "in_uptrend f = replicate n True" and "\<And>k. k \<in> set ks \<Longrightarrow> k < n"
  shows "fold st_step ks f = f"
  using assms(4)
proof (induction ks)
  case Nil
  show ?case by simp
next
  case (Cons k ks)
  have k: "k < n" by (rule Cons.prems) simp
  then have k1: "k - 1 < n" by simp
  have "in_uptrend f ! (k - 1) = in_uptrend f ! k"
    using k k1 by (simp add: assms(3))
  then have "(in_uptrend f)[k := in_uptrend f ! (k - 1)] = in_uptrend f"
    by simp
  with st_step_nan [OF assms(1) [OF k1] assms(2) [OF k1]] have "st_step k f = f" by simp
  moreover have "fold st_step ks f = f"
    by (rule Cons.IH) (simp add: Cons.prems)
  ultimately show ?case by simp
qed

lemma st_short_uptrend:
  assumes "st_calculate period multiplier series = Inr f" and "int (length series) < period"
  shows "in_uptrend f = replicate (length series) True"
proof -
  from assms(1) obtain a f0 where a: "atr series period = Inr a"
    and f: "f = fold st_step [1..<length series] f0"
    and "st_rows f0 = series" and "atr_col f0 = a"
    and "length (upperband f0) = length series" and "length (lowerband f0) = length series"
    and f0: "in_uptrend f0 = replicate (length series) True"
    and ub: "\<forall>i < length series.
           upperband f0 ! i = fadd (fhalf (fadd (high (series ! i)) (low (series ! i)))) (fmul (Some multiplier) (a ! i))"
    and lb: "\<forall>i < length series.
           lowerband f0 ! i = fsub (fhalf (fadd (high (series ! i)) (low (series ! i)))) (fmul (Some multiplier) (a ! i))"
    by (rule st_calculate_frame)
  have lt: "length (tr series) = length series"
    by (simp add: tr_def shift1_def)
  have nan: "a ! i = None" if "i < length series" for i
    using a assms(2) that unfolding atr_def
    by (intro rolling_mean_all_nan [where xs = "tr series" and w = period]) (simp_all add: lt)
  have "fold st_step [1..<length series] f0 = f0"
  proof (rule st_fold_nan [where n = "length series"])
    show "upperband f0 ! i = None" if "i < length series" for i
      using that by (simp add: ub nan)
    show "lowerband f0 ! i = None" if "i < length series" for i
      using that by (simp add: lb nan)
    show "in_uptrend f0 = replicate (length series) True" by (rule f0)
    show "k < length series" if "k \<in> set [1..<length series]" for k
      using that by simp
  qed
  with f f0 show ?thesis by simp
qed

lemma st_calculate_rows:
  assumes "st_calculate period multiplier series = Inr f"
  shows "st_rows f = series"
  using assms by (auto simp add: st_calculate_def Let_def split: sum.splits)

lemma st_short_hold:
  assumes "st_calculate period multiplier series = Inr f"
    and "length series < 2 \<or> int (length series) < period"
  shows "st_get_signal f = Inr ''hold''"
proof (cases "length series < 2")
  case True
  have "st_rows f = series" using assms(1) by (rule st_calculate_rows)
  with True show ?thesis by (simp add: st_get_signal_def Let_def)
next
  case False
  with assms(2) have "int (length series) < period" by simp
  with assms(1) have up: "in_uptrend f = replicate (length series) True"
    by (rule st_short_uptrend)
  have rows: "st_rows f = series" using assms(1) by (rule st_calculate_rows)
  from False have "2 \<le> length series" by simp
  then have n: "0 \<le> int (length series) - 2" "int (length series) - 2 < int (length (in_uptrend f))"
    "0 \<le> int (length series) - 1" "int (length series) - 1 < int (length (in_uptrend f))"
    by (auto simp add: up)
  have "iloc (in_uptrend f) (int (length series) - 2) = Inr True"
    using False by (simp add: iloc_nonneg [OF n(1,2)]) (simp add: up)
  moreover have "iloc (in_uptrend f) (int (length series) - 1) = Inr True"
    using False by (simp add: iloc_nonneg [OF n(3,4)]) (simp add: up)
  ultimately show ?thesis
    using False by (simp add: st_get_signal_def Let_def rows)
qed

text \<open>Golden Cross on a short series.\<close>

lemma gc_short_hold:
  assumes "gc_calculate short_period long_period series = Inr f" and "series \<noteq> []"
    and "length series < 2 \<or> int (length series) < max short_period long_period"
  shows "gc_get_signal f = Inr ''hold''"
proof -
  note fr = gc_calculate_frame [OF assms(1)]
  define j where "j = length series - 1"
  from assms(2) have j: "j < length series" by (simp add: j_def)
  have nan: "j = 0 \<or> ma_short f ! j = None \<or> ma_long f ! j = None"
  proof (cases "length series < 2")
    case True
    then show ?thesis by (simp add: j_def)
  next
    case False
    with assms(3) have "int (length series) < short_period \<or> int (length series) < long_period"
      by (simp add: max_def split: if_splits)
    then show ?thesis
    proof
      assume "int (length series) < short_period"
      then have "ma_short f ! j = None"
        using j by (intro rolling_mean_all_nan [OF fr(2)]) simp_all
      then show ?thesis by simp
    next
      assume "int (length series) < long_period"
      then have "ma_long f ! j = None"
        using j by (intro rolling_mean_all_nan [OF fr(3)]) simp_all
      then show ?thesis by simp
    qed
  qed
  then have "\<not> (1 \<le> j \<and> fle (ma_short f ! (j - 1)) (ma_long f ! (j - 1)) \<and> fgt (ma_short f ! j) (ma_long f ! j))"
    by (elim disjE) simp_all
  then have g: "\<not> golden_cross f ! j" unfolding fr(6) [OF j] .
  from nan have "\<not> (1 \<le> j \<and> fge (ma_short f ! (j - 1)) (ma_long f ! (j - 1)) \<and> flt (ma_short f ! j) (ma_long f ! j))"
    by (elim disjE) simp_all
  then have d: "\<not> death_cross f ! j" unfolding fr(7) [OF j] .
  from assms(2) fr(4,5) have ne: "golden_cross f \<noteq> []" "death_cross f \<noteq> []"
    and last: "length (golden_cross f) - 1 = j" "length (death_cross f) - 1 = j"
    by (auto simp add: j_def)
  have "iloc (golden_cross f) (- 1) = Inr False"
    using iloc_last [OF ne(1)] g last(1) by simp
  moreover have "iloc (death_cross f) (- 1) = Inr False"
    using iloc_last [OF ne(2)] d last(2) by simp
  ultimately show ?thesis
    by (simp add: gc_get_signal_def)
qed

text \<open>Bollinger Bands: the signal flags row by row, and a short series.\<close>

lemma bb_step_fields [simp]:
  "bb_rows (bb_step i f) = bb_rows f"
  "above_upper (bb_step i f) = above_upper f"
  "below_lower (bb_step i f) = below_lower f"
  "length (bb_buy_signal (bb_step i f)) = length (bb_buy_signal f)"
  "length (bb_sell_signal (bb_step i f)) = length (bb_sell_signal f)"
  by (simp_all add: bb_step_def Let_def)

lemma bb_step_flags:
  "j < length (bb_buy_signal f) \<Longrightarrow>
   bb_buy_signal (bb_step i f) ! j =
     (bb_buy_signal f ! j \<or> (j = i \<and> below_lower f ! (i - 1) \<and> \<not> below_lower f ! i))"
  "j < length (bb_sell_signal f) \<Longrightarrow>
   bb_sell_signal (bb_step i f) ! j =
     (bb_sell_signal f ! j \<or> (j = i \<and> above_upper f ! (i - 1) \<and> \<not> above_upper f ! i))"
  by (cases "j = i"; auto simp add: bb_step_def Let_def)+

lemma bb_fold_fields [simp]:
  "bb_rows (fold bb_step ks f) = bb_rows f"
  "above_upper (fold bb_step ks f) = above_upper f"
  "below_lower (fold bb_step ks f) = below_lower f"
  "length (bb_buy_signal (fold bb_step ks f)) = length (bb_buy_signal f)"
  "length (bb_sell_signal (fold bb_step ks f)) = length (bb_sell_signal f)"
  by (induction ks arbitrary: f) simp_all

lemma bb_fold_flags:
  assumes "\<And>i. i < n \<Longrightarrow> \<not> below_lower f ! i" and "\<And>i. i < n \<Longrightarrow> \<not> above_upper f ! i"
    and "bb_buy_signal f = replicate n False" and "bb_sell_signal f = replicate n False"
    and "\<And>k. k \<in> set ks \<Longrightarrow> k < n"
  shows "fold bb_step ks f = f"
  using assms(5)
proof (induction ks)
  case Nil
  show ?case by simp
next
  case (Cons k ks)
  have k: "k < n" by (rule Cons.prems) simp
  then have "k - 1 < n" by simp
  then have "\<not> below_lower f ! (k - 1)" "\<not> above_upper f ! (k - 1)"
    by (rule assms(1), rule assms(2))
  then have "bb_step k f = f" by (simp add: bb_step_def Let_def)
  moreover have "fold bb_step ks f = f"
    by (rule Cons.IH) (simp add: Cons.prems)
  ultimately show ?case by simp
qed

lemma bb_short_hold:
  assumes "bb_calculate period num_std series = Inr f" and "series \<noteq> []"
    and "length series < 2 \<or> int (length series) < period"
  shows "bb_get_signal f = Inr ''hold''"
proof -
  from assms(1) obtain middle std where m: "rolling_mean period (map close series) = Inr middle"
    and s: "rolling_std period (map close series) = Inr std"
    by (auto simp add: bb_calculate_def split: sum.splits)
  define upper where "upper = map (\<lambda>(m, s). fadd m (fmul s (Some num_std))) (zip middle std)"
  define lower where "lower = map (\<lambda>(m, s). fsub m (fmul s (Some num_std))) (zip middle std)"
  define f0 where "f0 = \<lparr>bb_rows = series, bb_middle = middle, bb_std = std,
                        bb_upper = upper, bb_lower = lower,
                        above_upper = map (\<lambda>(c, u). fgt (close c) u) (zip series upper),
                        below_lower = map (\<lambda>(c, l). flt (close c) l) (zip series lower),
                        bb_buy_signal = replicate (length series) False,
                        bb_sell_signal = replicate (length series) False\<rparr>"
  have f: "f = fold bb_step [1..<length series] f0"
    using assms(1) m s by (simp add: bb_calculate_def Let_def f0_def upper_def lower_def)
  have lm: "length middle = length series" "length std = length series"
    using rolling_mean_length [OF m] rolling_std_length [OF s] by simp_all
  have "f = f0"
  proof (cases "length series < 2")
    case True
    then have e: "[1..<length series] = []" by simp
    show ?thesis unfolding f e by simp
  next
    case False
    with assms(3) have short: "int (length series) < period" by simp
    have nan: "middle ! i = None" if "i < length series" for i
      using that short by (intro rolling_mean_all_nan [OF m]) simp_all
    have "fold bb_step [1..<length series] f0 = f0"
    proof (rule bb_fold_flags [where n = "length series"])
      show "\<not> below_lower f0 ! i" if "i < length series" for i
        using that by (simp add: f0_def lower_def lm nan)
      show "\<not> above_upper f0 ! i" if "i < length series" for i
        using that by (simp add: f0_def upper_def lm nan)
      show "bb_buy_signal f0 = replicate (length series) False"
        "bb_sell_signal f0 = replicate (length series) False"
        by (simp_all add: f0_def)
      show "k < length series" if "k \<in> set [1..<length series]" for k
        using that by simp
    qed
    with f show ?thesis by simp
  qed
  then have flags: "bb_buy_signal f = replicate (length series) False"
    "bb_sell_signal f = replicate (length series) False"
    by (simp_all add: f0_def)
  from assms(2) have ne: "bb_buy_signal f \<noteq> []" "bb_sell_signal f \<noteq> []"
    by (simp_all add: flags)
  have "iloc (bb_buy_signal f) (- 1) = Inr False"
    using iloc_last [OF ne(1)] assms(2) by (simp add: flags)
  moreover have "iloc (bb_sell_signal f) (- 1) = Inr False"
    using iloc_last [OF ne(2)] assms(2) by (simp add: flags)
  ultimately show ?thesis
    by (simp add: bb_get_signal_def)
qed

text \<open>Funding Rate: the signal is read off the last draw.\<close>

lemma fr_signal:
  assumes "series \<noteq> []"
  shows "fr_get_signal (fst (fr_calculate threshold series g)) =
           Inr (if g (length series - 1) < - threshold then ''buy''
                else if threshold < g (length series - 1) then ''sell'' else ''hold'')"
proof -
  define f where "f = fst (fr_calculate threshold series g)"
  have buy: "fr_buy_signal f = map (\<lambda>i. g i < - threshold) [0..<length series]"
    and sell: "fr_sell_signal f = map (\<lambda>i. threshold < g i) [0..<length series]"
    by (simp_all add: f_def fr_calculate_def random_normal_def flt_def fgt_def)
  from assms have ne: "fr_buy_signal f \<noteq> []" "fr_sell_signal f \<noteq> []"
    by (simp_all add: buy sell)
  from assms have last: "length series - 1 < length series" by simp
  have "iloc (fr_buy_signal f) (- 1) = Inr (g (length series - 1) < - threshold)"
    using iloc_last [OF ne(1)] last by (simp add: buy)
  moreover have "iloc (fr_sell_signal f) (- 1) = Inr (threshold < g (length series - 1))"
    using iloc_last [OF ne(2)] last by (simp add: sell)
  ultimately show ?thesis
    unfolding f_def [symmetric] by (simp add: fr_get_signal_def)
qed

text \<open>
  C3. For a series with fewer than two rows or shorter than the lookback, \<open>get_signal\<close>
  on the frame that \<open>calculate\<close> returns is hold: for Supertrend (lookback: the
  period) on any such series, the empty one included; for Golden Cross (lookback: the
  larger period) and Bollinger Bands (lookback: the period) on any such non-empty
  series. Funding Rate has no lookback: on a non-empty series its signal is read off
  the last funding rate alone, buy below minus the threshold, sell above the
  threshold, hold otherwise.
\<close>

theorem short_series_hold:
  assumes "fst (calculate s series g) = Inr fr"
  shows "(s = SupertrendStrategy period multiplier
            \<and> (length series < 2 \<or> int (length series) < period)
          \<longrightarrow> get_signal s fr = Inr ''hold'')
       \<and> (s = GoldenCrossStrategy short_period long_period \<and> series \<noteq> []
            \<and> (length series < 2 \<or> int (length series) < max short_period long_period)
          \<longrightarrow> get_signal s fr = Inr ''hold'')
       \<and> (s = BollingerBandsStrategy bb_period num_std \<and> series \<noteq> []
            \<and> (length series < 2 \<or> int (length series) < bb_period)
          \<longrightarrow> get_signal s fr = Inr ''hold'')
       \<and> (s = FundingRateStrategy threshold \<and> series \<noteq> []
          \<longrightarrow> get_signal s fr =
                Inr (if g (length series - 1) < - threshold then ''buy''
                     else if threshold < g (length series - 1) then ''sell'' else ''hold''))"
proof (intro conjI impI)
  assume h: "s = SupertrendStrategy period multiplier
            \<and> (length series < 2 \<or> int (length series) < period)"
  with assms obtain f where f: "st_calculate period multiplier series = Inr f" "fr = StFrame f"
    by (auto split: sum.splits)
  from h have "length series < 2 \<or> int (length series) < period" by (rule conjunct2)
  with f(1) have "st_get_signal f = Inr ''hold''" by (rule st_short_hold)
  with h f(2) show "get_signal s fr = Inr ''hold''" by simp
next
  assume h: "s = GoldenCrossStrategy short_period long_period \<and> series \<noteq> []
            \<and> (length series < 2 \<or> int (length series) < max short_period long_period)"
  with assms obtain f where f: "gc_calculate short_period long_period series = Inr f" "fr = GcFrame f"
    by (auto split: sum.splits)
  from h have "series \<noteq> []"
    and "length series < 2 \<or> int (length series) < max short_period long_period" by simp_all
  with f(1) have "gc_get_signal f = Inr ''hold''" by (rule gc_short_hold)
  with h f(2) show "get_signal s fr = Inr ''hold''" by simp
next
  assume h: "s = BollingerBandsStrategy bb_period num_std \<and> series \<noteq> []
            \<and> (length series < 2 \<or> int (length series) < bb_period)"
  with assms obtain f where f: "bb_calculate bb_period num_std series = Inr f" "fr = BbFrame f"
    by (auto split: sum.splits)
  from h have "series \<noteq> []"
    and "length series < 2 \<or> int (length series) < bb_period" by simp_all
  with f(1) have "bb_get_signal f = Inr ''hold''" by (rule bb_short_hold)
  with h f(2) show "get_signal s fr = Inr ''hold''" by simp
next
  assume h: "s = FundingRateStrategy threshold \<and> series \<noteq> []"
  with assms have fr: "fr = FrFrame (fst (fr_calculate threshold series g))"
    by (simp add: case_prod_beta)
  from h have "series \<noteq> []" by simp
  from fr_signal [OF this, of threshold g] h fr
  show "get_signal s fr =
                Inr (if g (length series - 1) < - threshold then ''buy''
                     else if threshold < g (length series - 1) then ''sell'' else ''hold'')"
    by simp
qed

theorem short_series_hold_witness:
  "(case fst (calculate (SupertrendStrategy 10 3) [] example_rng) of
      Inl e \<Rightarrow> False | Inr fr \<Rightarrow> frame_len fr = 0 \<and> get_signal (SupertrendStrategy 10 3) fr = Inr ''hold'')
   \<and> (case fst (calculate (SupertrendStrategy 10 3) three_bars example_rng) of
      Inl e \<Rightarrow> False | Inr fr \<Rightarrow> frame_len fr = 3 \<and> get_signal (SupertrendStrategy 10 3) fr = Inr ''hold'')
   \<and> (case fst (calculate (GoldenCrossStrategy 50 200) three_bars example_rng) of
      Inl e \<Rightarrow> False | Inr fr \<Rightarrow> frame_len fr = 3 \<and> get_signal (GoldenCrossStrategy 50 200) fr = Inr ''hold'')
   \<and> (case fst (calculate (BollingerBandsStrategy 20 2) three_bars example_rng) of
      Inl e \<Rightarrow> False | Inr fr \<Rightarrow> frame_len fr = 3 \<and> get_signal (BollingerBandsStrategy 20 2) fr = Inr ''hold'')
   \<and> (case fst (calculate (FundingRateStrategy (1 / 1000)) one_bar example_rng) of
      Inl e \<Rightarrow> False | Inr fr \<Rightarrow> frame_len fr = 1 \<and> get_signal (FundingRateStrategy (1 / 1000)) fr = Inr ''buy'')"
proof -
  have l: "length three_bars = 3" "length one_bar = 1"
    by (simp_all add: three_bars_def one_bar_def)
  obtain f1 where c1: "fst (calculate (SupertrendStrategy 10 3) [] example_rng) = Inr (StFrame f1)"
    and n1: "st_rows f1 = []"
    by (simp add: st_calculate_def atr_def rolling_mean_def tr_def shift1_def)
  obtain f2 where c2: "fst (calculate (SupertrendStrategy 10 3) three_bars example_rng) = Inr (StFrame f2)"
    and n2: "st_rows f2 = three_bars"
    by (simp add: st_calculate_def atr_def rolling_mean_def Let_def)
  obtain f3 where c3: "fst (calculate (GoldenCrossStrategy 50 200) three_bars example_rng) = Inr (GcFrame f3)"
    and n3: "gc_rows f3 = three_bars"
    by (simp add: gc_calculate_def rolling_mean_def Let_def l)
  obtain f4 where c4: "fst (calculate (BollingerBandsStrategy 20 2) three_bars example_rng) = Inr (BbFrame f4)"
    and n4: "bb_rows f4 = three_bars"
    by (simp add: bb_calculate_def rolling_mean_def rolling_std_def Let_def)
  obtain f5 where c5: "fst (calculate (FundingRateStrategy (1 / 1000)) one_bar example_rng) = Inr (FrFrame f5)"
    and n5: "fr_rows f5 = one_bar"
    by (simp add: fr_calculate_def random_normal_def case_prod_beta)
  from short_series_hold [OF c1, where period = 10 and multiplier = 3]
  have s1: "st_get_signal f1 = Inr ''hold''" by simp
  from short_series_hold [OF c2, where period = 10 and multiplier = 3]
  have s2: "st_get_signal f2 = Inr ''hold''" by (simp add: l)
  from short_series_hold [OF c3, where short_period = 50 and long_period = 200]
  have s3: "gc_get_signal f3 = Inr ''hold''"
    by (simp add: l) (simp add: three_bars_def)
  from short_series_hold [OF c4, where bb_period = 20 and num_std = 2]
  have s4: "bb_get_signal f4 = Inr ''hold''"
    by (simp add: l) (simp add: three_bars_def)
  from short_series_hold [OF c5, where threshold = "1 / 1000"]
  have s5: "fr_get_signal f5 = Inr ''buy''"
    by (simp add: l example_rng_def) (simp add: one_bar_def)
  show ?thesis
    unfolding c1 c2 c3 c4 c5 by (simp add: s1 s2 s3 s4 s5 n1 n2 n3 n4 n5 l)
qed

text \<open>
  A one-row frame of Funding Rate whose draw is below minus the threshold signals buy.
\<close>

theorem short_series_hold_counterexample:
  "fst (calculate (FundingRateStrategy (1 / 1000)) one_bar example_rng) = Inr (FrFrame first_draw_frame)
   \<and> frame_len (FrFrame first_draw_frame) = 1
   \<and> get_signal (FundingRateStrategy (1 / 1000)) (FrFrame first_draw_frame) = Inr ''buy''"
  by (simp add: fr_calculate_def random_normal_def first_draw_frame_def one_bar_def example_rng_def
        flt_def fgt_def fr_get_signal_def iloc_def)

text \<open>
  On the empty frame the three \<open>get_signal\<close> methods that read \<^verbatim>\<open>.iloc[-1]\<close> without a
  length test raise IndexError.
\<close>

lemma empty_frame_get_signal_raises:
  "gc_calculate 50 200 [] = Inr \<lparr>gc_rows = [], ma_short = [], ma_long = [], golden_cross = [], death_cross = []\<rparr>"
  "gc_get_signal \<lparr>gc_rows = [], ma_short = [], ma_long = [], golden_cross = [], death_cross = []\<rparr> = Inl IndexError"
  "bb_calculate 20 2 [] = Inr \<lparr>bb_rows = [], bb_middle = [], bb_std = [], bb_upper = [], bb_lower = [],
      above_upper = [], below_lower = [], bb_buy_signal = [], bb_sell_signal = []\<rparr>"
  "bb_get_signal \<lparr>bb_rows = [], bb_middle = [], bb_std = [], bb_upper = [], bb_lower = [],
      above_upper = [], below_lower = [], bb_buy_signal = [], bb_sell_signal = []\<rparr> = Inl IndexError"
  "fr_get_signal (fst (fr_calculate (1 / 1000) [] example_rng)) = Inl IndexError"
  by (simp_all add: gc_calculate_def bb_calculate_def rolling_mean_def rolling_std_def
        gc_get_signal_def bb_get_signal_def iloc_def fr_calculate_def random_normal_def fr_get_signal_def)

section \<open>Determinism of calculate\<close>




end
